theory Spec2Isabelle
  imports Complex_Main
begin

section \<open>Python values, errors and dictionaries\<close>

text \<open>
  The aggregation core of \<^verbatim>\<open>api_server.py\<close> works on \<^verbatim>\<open>Dict[str, Any]\<close> payloads.
  A value is \<^verbatim>\<open>None\<close>, a bool, a number or a string. Python's \<^verbatim>\<open>int\<close> and
  \<^verbatim>\<open>float\<close> are both modelled by \<^typ>\<open>real\<close>: a float stands for the real number
  that its shortest decimal literal denotes, so a numeric literal of the source denotes
  itself and a comparison of floats is the comparison of the reals. Every \<^verbatim>\<open>raise\<close>
  of the interpreter that the code can reach is a value of \<open>py_error\<close>.
\<close>

datatype pyval = PNone | PBool bool | PNum real | PStr string

datatype py_error = TypeError | KeyError | ZeroDivisionError

type_synonym metrics = "string \<rightharpoonup> pyval"

type_synonym pillar_dict = "(string \<times> real) list"

text \<open>
  The sum and the product of two floats are rounded, and the built-in \<^verbatim>\<open>sum\<close> of a
  list of floats depends on the interpreter (it is compensated from CPython 3.12 on).
  The pillar risk adjuster and the verdict classifier, whose results are compared with
  thresholds, take these three operations as a parameter: \<open>fadd\<close> is \<^verbatim>\<open>a + b\<close> (and
  \<^verbatim>\<open>a - b\<close> is \<open>fadd a (- b)\<close>), \<open>fmul\<close> is \<^verbatim>\<open>a * b\<close>, \<open>fsum\<close> is \<^verbatim>\<open>sum\<close> of a
  generator of floats. \<open>exact_ops\<close> is arithmetic without rounding. The probability
  blender and the percentage in an insight text are written in exact arithmetic.
\<close>

record float_ops =
  fadd :: "real \<Rightarrow> real \<Rightarrow> real"
  fmul :: "real \<Rightarrow> real \<Rightarrow> real"
  fsum :: "real list \<Rightarrow> real"

definition exact_ops :: float_ops where
  "exact_ops = \<lparr>fadd = (+), fmul = (*), fsum = sum_list\<rparr>"

text \<open>\<^verbatim>\<open>d.get(k, default)\<close> on a payload.\<close>

definition dict_get :: "metrics \<Rightarrow> string \<Rightarrow> pyval \<Rightarrow> pyval" where
  "dict_get d k dflt = (case d k of None \<Rightarrow> dflt | Some v \<Rightarrow> v)"

text \<open>\<^verbatim>\<open>d[k]\<close>: a missing key raises \<^verbatim>\<open>KeyError\<close>.\<close>

definition dict_index :: "('k \<times> 'v) list \<Rightarrow> 'k \<Rightarrow> py_error + 'v" where
  "dict_index d k = (case map_of d k of None \<Rightarrow> Inl KeyError | Some v \<Rightarrow> Inr v)"

definition metrics_index :: "metrics \<Rightarrow> string \<Rightarrow> py_error + pyval" where
  "metrics_index d k = (case d k of None \<Rightarrow> Inl KeyError | Some v \<Rightarrow> Inr v)"

text \<open>
  The numeric reading of a value: \<^verbatim>\<open>bool\<close> is a subclass of \<^verbatim>\<open>int\<close>; a string or
  \<^verbatim>\<open>None\<close> has none, and an ordering comparison with a number raises \<^verbatim>\<open>TypeError\<close>.
\<close>

fun num_of :: "pyval \<Rightarrow> real option" where
  "num_of (PNum x) = Some x"
| "num_of (PBool b) = Some (if b then 1 else 0)"
| "num_of PNone = None"
| "num_of (PStr s) = None"

definition py_lt :: "pyval \<Rightarrow> real \<Rightarrow> py_error + bool" where
  "py_lt v c = (case num_of v of None \<Rightarrow> Inl TypeError | Some x \<Rightarrow> Inr (x < c))"

definition py_gt :: "pyval \<Rightarrow> real \<Rightarrow> py_error + bool" where
  "py_gt v c = (case num_of v of None \<Rightarrow> Inl TypeError | Some x \<Rightarrow> Inr (x > c))"

definition py_ge :: "pyval \<Rightarrow> real \<Rightarrow> py_error + bool" where
  "py_ge v c = (case num_of v of None \<Rightarrow> Inl TypeError | Some x \<Rightarrow> Inr (x \<ge> c))"

text \<open>\<^verbatim>\<open>v == c\<close> for a numeric literal \<open>c\<close> never raises.\<close>

definition py_eq_num :: "pyval \<Rightarrow> real \<Rightarrow> bool" where
  "py_eq_num v c = (case num_of v of None \<Rightarrow> False | Some x \<Rightarrow> x = c)"

text \<open>Truthiness, as \<^verbatim>\<open>if v:\<close> and \<^verbatim>\<open>and\<close> read a value.\<close>

fun py_truthy :: "pyval \<Rightarrow> bool" where
  "py_truthy PNone = False"
| "py_truthy (PBool b) = b"
| "py_truthy (PNum x) = (x \<noteq> 0)"
| "py_truthy (PStr s) = (s \<noteq> [])"

text \<open>\<^verbatim>\<open>a and b\<close> where only \<open>b\<close> can raise: \<open>b\<close> is not evaluated when \<open>a\<close> is false.\<close>

definition py_and :: "bool \<Rightarrow> (py_error + bool) \<Rightarrow> py_error + bool" where
  "py_and a b = (if a then b else Inr False)"

section \<open>Stage profile registry\<close>

text \<open>
  \<^verbatim>\<open>get_stage_weights\<close> and \<^verbatim>\<open>get_stage_thresholds\<close> build a dict literal keyed by the
  display names of the stages and return \<^verbatim>\<open>table.get(funding_stage, table["Seed"])\<close>.
  The annotation of the argument is \<^verbatim>\<open>str\<close>, but the caller passes
  \<^verbatim>\<open>data.get('funding_stage', 'Seed')\<close> unchecked, so the argument is a \<open>pyval\<close>;
  a value that is not a string equals no key of the table.
\<close>

definition weights_table :: "(string \<times> pillar_dict) list" where
  "weights_table =
    [(''Pre-seed'', [(''capital'', 0.15), (''advantage'', 0.30), (''market'', 0.20), (''people'', 0.35)]),
     (''Seed'', [(''capital'', 0.20), (''advantage'', 0.30), (''market'', 0.25), (''people'', 0.25)]),
     (''Series A'', [(''capital'', 0.25), (''advantage'', 0.25), (''market'', 0.30), (''people'', 0.20)]),
     (''Series B'', [(''capital'', 0.25), (''advantage'', 0.25), (''market'', 0.30), (''people'', 0.20)]),
     (''Series C'', [(''capital'', 0.30), (''advantage'', 0.20), (''market'', 0.30), (''people'', 0.20)])]"

definition thresholds_table :: "(string \<times> pillar_dict) list" where
  "thresholds_table =
    [(''Pre-seed'', [(''capital'', 0.30), (''advantage'', 0.40), (''market'', 0.30), (''people'', 0.50)]),
     (''Seed'', [(''capital'', 0.35), (''advantage'', 0.45), (''market'', 0.40), (''people'', 0.50)]),
     (''Series A'', [(''capital'', 0.45), (''advantage'', 0.50), (''market'', 0.50), (''people'', 0.45)]),
     (''Series B'', [(''capital'', 0.50), (''advantage'', 0.55), (''market'', 0.55), (''people'', 0.50)]),
     (''Series C'', [(''capital'', 0.55), (''advantage'', 0.60), (''market'', 0.60), (''people'', 0.55)])]"

text \<open>\<^verbatim>\<open>table.get(key, default)\<close> for a table keyed by strings and a key of any type.\<close>

definition table_get :: "(string \<times> 'v) list \<Rightarrow> pyval \<Rightarrow> 'v \<Rightarrow> 'v" where
  "table_get t key dflt =
    (case key of
       PStr s \<Rightarrow> (case map_of t s of None \<Rightarrow> dflt | Some v \<Rightarrow> v)
     | _ \<Rightarrow> dflt)"

definition get_stage_weights :: "pyval \<Rightarrow> py_error + pillar_dict" where
  "get_stage_weights funding_stage =
    (case dict_index weights_table ''Seed'' of
       Inl e \<Rightarrow> Inl e
     | Inr seed \<Rightarrow> Inr (table_get weights_table funding_stage seed))"

definition get_stage_thresholds :: "pyval \<Rightarrow> py_error + pillar_dict" where
  "get_stage_thresholds funding_stage =
    (case dict_index thresholds_table ''Seed'' of
       Inl e \<Rightarrow> Inl e
     | Inr seed \<Rightarrow> Inr (table_get thresholds_table funding_stage seed))"

text \<open>
  The request schema \<^verbatim>\<open>StartupMetrics\<close> accepts a \<^verbatim>\<open>funding_stage\<close> that matches
  \<^verbatim>\<open>^(pre_seed|seed|series_a|series_b|series_c|growth)$\<close>, and an
  \<^verbatim>\<open>investor_tier_primary\<close> that matches \<^verbatim>\<open>^(tier_1|tier_2|tier_3|none)$\<close>.
\<close>

definition funding_stage_pattern :: "string list" where
  "funding_stage_pattern =
    [''pre_seed'', ''seed'', ''series_a'', ''series_b'', ''series_c'', ''growth'']"

definition investor_tier_pattern :: "string list" where
  "investor_tier_pattern = [''tier_1'', ''tier_2'', ''tier_3'', ''none'']"

text \<open>The stage order of the specification, earliest stage first, by the table's keys.\<close>

definition stage_order :: "string list" where
  "stage_order = [''Pre-seed'', ''Seed'', ''Series A'', ''Series B'', ''Series C'']"

text \<open>
  The threshold of pillar \<open>p\<close> at stage \<open>s1\<close> is at most the one at stage \<open>s2\<close>
  (and both lookups succeed).
\<close>

definition threshold_le :: "string \<Rightarrow> string \<Rightarrow> string \<Rightarrow> bool" where
  "threshold_le p s1 s2 =
    (case (get_stage_thresholds (PStr s1), get_stage_thresholds (PStr s2)) of
       (Inr t1, Inr t2) \<Rightarrow>
         (case (map_of t1 p, map_of t2 p) of
            (Some x, Some y) \<Rightarrow> x \<le> y
          | _ \<Rightarrow> False)
     | _ \<Rightarrow> False)"

text \<open>The threshold of pillar \<open>p\<close> at stage \<open>s\<close>, when the lookup gives one.\<close>

definition threshold_of :: "string \<Rightarrow> string \<Rightarrow> real option" where
  "threshold_of p s =
    (case get_stage_thresholds (PStr s) of Inl e \<Rightarrow> None | Inr t \<Rightarrow> map_of t p)"

section \<open>Critical failure detector\<close>

text \<open>
  One \<^verbatim>\<open>if cond: failures.append(msg)\<close> statement: the condition may raise, and the
  list is passed on, extended at its end when the condition holds.
\<close>

definition append_if :: "(py_error + bool) \<Rightarrow> string \<Rightarrow> string list \<Rightarrow> py_error + string list" where
  "append_if c msg failures =
    (case c of Inl e \<Rightarrow> Inl e | Inr b \<Rightarrow> Inr (if b then failures @ [msg] else failures))"

definition runway_failure :: string where
  "runway_failure = ''Less than 3 months runway - immediate funding required''"

definition burn_failure :: string where
  "burn_failure = ''Burning >5x revenue - unsustainable burn rate''"

definition concentration_failure :: string where
  "concentration_failure = ''Over 80% customer concentration - extreme dependency risk''"

definition churn_failure :: string where
  "churn_failure = ''Monthly churn >20% - severe retention crisis''"

definition founder_failure :: string where
  "founder_failure = ''Single founder with high key person risk''"

definition check_critical_failures :: "metrics \<Rightarrow> py_error + string list" where
  "check_critical_failures data =
    (case append_if (py_lt (dict_get data ''runway_months'' (PNum 0)) 3) runway_failure [] of
       Inl e \<Rightarrow> Inl e
     | Inr f1 \<Rightarrow>
    (case append_if (py_gt (dict_get data ''burn_multiple'' (PNum 0)) 5) burn_failure f1 of
       Inl e \<Rightarrow> Inl e
     | Inr f2 \<Rightarrow>
    (case append_if (py_gt (dict_get data ''customer_concentration_percent'' (PNum 0)) 80)
            concentration_failure f2 of
       Inl e \<Rightarrow> Inl e
     | Inr f3 \<Rightarrow>
    (case append_if (py_gt (dict_get data ''churn_rate'' (PNum 0)) 20) churn_failure f3 of
       Inl e \<Rightarrow> Inl e
     | Inr f4 \<Rightarrow>
       append_if
         (Inr (py_eq_num (dict_get data ''founders_count'' (PNum 1)) 1
               \<and> py_truthy (dict_get data ''key_person_dependency'' (PBool True))))
         founder_failure f4))))"

section \<open>Pillar risk adjuster\<close>

text \<open>
  One \<^verbatim>\<open>if cond: adjusted += delta\<close> statement (\<open>delta\<close> negative for
  \<^verbatim>\<open>adjusted -= c\<close>).
\<close>

definition adjust_if ::
    "float_ops \<Rightarrow> (py_error + bool) \<Rightarrow> real \<Rightarrow> real \<Rightarrow> py_error + real" where
  "adjust_if ops c delta adjusted =
    (case c of
       Inl e \<Rightarrow> Inl e
     | Inr b \<Rightarrow> Inr (if b then fadd ops adjusted delta else adjusted))"

text \<open>The \<^verbatim>\<open>if/elif\<close> chain of risk factors (negative adjustments).\<close>

definition risk_factors :: "float_ops \<Rightarrow> real \<Rightarrow> string \<Rightarrow> metrics \<Rightarrow> py_error + real" where
  "risk_factors ops adjusted pillar_name data =
    (if pillar_name = ''market'' then
       (case adjust_if ops (py_gt (dict_get data ''customer_concentration_percent'' (PNum 0)) 50)
               (- 0.1) adjusted of
          Inl e \<Rightarrow> Inl e
        | Inr a1 \<Rightarrow>
       (case adjust_if ops (py_gt (dict_get data ''regulatory_risk_score'' (PNum 0)) 4) (- 0.15) a1 of
          Inl e \<Rightarrow> Inl e
        | Inr a2 \<Rightarrow>
          adjust_if ops (py_ge (dict_get data ''competition_intensity'' (PNum 0)) 4) (- 0.05) a2))
     else if pillar_name = ''capital'' then
       (case adjust_if ops
               (py_and (py_truthy (dict_get data ''has_debt'' (PBool False)))
                  (py_gt (dict_get data ''debt_to_equity_ratio'' (PNum 0)) 2))
               (- 0.1) adjusted of
          Inl e \<Rightarrow> Inl e
        | Inr a1 \<Rightarrow>
          adjust_if ops
            (Inr (dict_get data ''investor_tier_primary'' PNone
                    \<notin> set [PStr ''Tier 1'', PStr ''Tier 2'']))
            (- 0.05) a1)
     else if pillar_name = ''advantage'' then
       (case adjust_if ops (Inr (\<not> py_truthy (dict_get data ''network_effects_present'' (PBool False))))
               (- 0.05) adjusted of
          Inl e \<Rightarrow> Inl e
        | Inr a1 \<Rightarrow>
          adjust_if ops (py_lt (dict_get data ''switching_cost_score'' (PNum 0)) 3) (- 0.05) a1)
     else if pillar_name = ''people'' then
       (case adjust_if ops (Inr (py_eq_num (dict_get data ''prior_successful_exits_count'' (PNum 0)) 0))
               (- 0.05) adjusted of
          Inl e \<Rightarrow> Inl e
        | Inr a1 \<Rightarrow>
          adjust_if ops (py_lt (dict_get data ''team_diversity_percent'' (PNum 0)) 20) (- 0.05) a1)
     else Inr adjusted)"

text \<open>The three independent \<^verbatim>\<open>if\<close> statements of positive factors.\<close>

definition positive_factors :: "float_ops \<Rightarrow> real \<Rightarrow> string \<Rightarrow> metrics \<Rightarrow> py_error + real" where
  "positive_factors ops adjusted pillar_name data =
    (case adjust_if ops
            (py_and (pillar_name = ''advantage'') (py_gt (dict_get data ''patent_count'' (PNum 0)) 5))
            0.05 adjusted of
       Inl e \<Rightarrow> Inl e
     | Inr a1 \<Rightarrow>
    (case adjust_if ops
            (py_and (pillar_name = ''market'')
               (py_gt (dict_get data ''net_dollar_retention_percent'' (PNum 0)) 130))
            0.1 a1 of
       Inl e \<Rightarrow> Inl e
     | Inr a2 \<Rightarrow>
       adjust_if ops
         (py_and (pillar_name = ''people'')
            (py_gt (dict_get data ''prior_successful_exits_count'' (PNum 0)) 1))
         0.1 a2))"

definition calculate_risk_adjusted_score ::
    "float_ops \<Rightarrow> real \<Rightarrow> string \<Rightarrow> metrics \<Rightarrow> py_error + real" where
  "calculate_risk_adjusted_score ops base_score pillar_name data =
    (case risk_factors ops base_score pillar_name data of
       Inl e \<Rightarrow> Inl e
     | Inr a \<Rightarrow>
    (case positive_factors ops a pillar_name data of
       Inl e \<Rightarrow> Inl e
     | Inr adjusted \<Rightarrow> Inr (max 0 (min 1 adjusted))))"

section \<open>Verdict classifier and verdict reconciliation\<close>

text \<open>
  Comprehensions whose element expression or condition may raise: the first error, in
  iteration order, is the result.
\<close>

fun map_result :: "('a \<Rightarrow> py_error + 'b) \<Rightarrow> 'a list \<Rightarrow> py_error + 'b list" where
  "map_result f [] = Inr []"
| "map_result f (x # xs) =
    (case f x of
       Inl e \<Rightarrow> Inl e
     | Inr y \<Rightarrow> (case map_result f xs of Inl e \<Rightarrow> Inl e | Inr ys \<Rightarrow> Inr (y # ys)))"

fun filter_result :: "('a \<Rightarrow> py_error + bool) \<Rightarrow> 'a list \<Rightarrow> py_error + 'a list" where
  "filter_result c [] = Inr []"
| "filter_result c (x # xs) =
    (case c x of
       Inl e \<Rightarrow> Inl e
     | Inr b \<Rightarrow>
        (case filter_result c xs of
           Inl e \<Rightarrow> Inl e
         | Inr ys \<Rightarrow> Inr (if b then x # ys else ys)))"

record evaluation =
  verdict :: string
  strength :: string
  risk_level :: string
  adjusted_probability :: real
  weighted_score :: real
  adjusted_pillar_scores :: pillar_dict
  below_threshold :: "string list"
  critical_failures :: "string list"
  stage_weights :: pillar_dict
  stage_thresholds :: pillar_dict

text \<open>
  \<^verbatim>\<open>evaluate_startup_comprehensive(pillar_scores, data, base_probability)\<close>. A dict of
  pillar scores is the list of its items in insertion order (its keys are distinct).
  A local variable that has the name of a key of the returned dict carries a prime.
  The weighted score is \<^verbatim>\<open>sum\<close> of the float products
  \<^verbatim>\<open>adjusted_scores[pillar] * weights[pillar]\<close>, in the order of the items.
\<close>

definition evaluate_startup_comprehensive ::
    "float_ops \<Rightarrow> pillar_dict \<Rightarrow> metrics \<Rightarrow> real \<Rightarrow> py_error + evaluation" where
  "evaluate_startup_comprehensive ops pillar_scores data base_probability =
    (let funding_stage = dict_get data ''funding_stage'' (PStr ''Seed'') in
     case check_critical_failures data of
       Inl e \<Rightarrow> Inl e
     | Inr critical_failures' \<Rightarrow>
    (case map_result
            (\<lambda>(pillar, score).
               case calculate_risk_adjusted_score ops score pillar data of
                 Inl e \<Rightarrow> Inl e
               | Inr a \<Rightarrow> Inr (pillar, a))
            pillar_scores of
       Inl e \<Rightarrow> Inl e
     | Inr adjusted_scores \<Rightarrow>
    (case get_stage_weights funding_stage of
       Inl e \<Rightarrow> Inl e
     | Inr weights \<Rightarrow>
    (case get_stage_thresholds funding_stage of
       Inl e \<Rightarrow> Inl e
     | Inr thresholds \<Rightarrow>
    (case filter_result
            (\<lambda>(pillar, score).
               case dict_index thresholds pillar of
                 Inl e \<Rightarrow> Inl e
               | Inr t \<Rightarrow> Inr (score < t))
            adjusted_scores of
       Inl e \<Rightarrow> Inl e
     | Inr below \<Rightarrow>
    (case map_result
            (\<lambda>pillar.
               case dict_index adjusted_scores pillar of
                 Inl e \<Rightarrow> Inl e
               | Inr a \<Rightarrow>
                  (case dict_index weights pillar of
                     Inl e \<Rightarrow> Inl e
                   | Inr w \<Rightarrow> Inr (fmul ops a w)))
            (map fst adjusted_scores) of
       Inl e \<Rightarrow> Inl e
     | Inr terms \<Rightarrow>
       (let below_threshold' = map fst below;
            weighted_score' = fsum ops terms;
            (verdict', risk_level', strength') =
              (if critical_failures' \<noteq> [] then
                 (''FAIL'', ''Critical Risk'', ''CRITICAL'')
               else if length below_threshold' = 0 \<and> weighted_score' \<ge> 0.6 then
                 (''PASS'', ''Low Risk'', ''STRONG'')
               else if length below_threshold' \<le> 1 \<and> weighted_score' \<ge> 0.55 then
                 (''CONDITIONAL PASS'', ''Medium Risk'', ''MODERATE'')
               else if weighted_score' \<ge> 0.5 \<and> length below_threshold' \<le> 2 then
                 (''CONDITIONAL PASS'', ''Medium-High Risk'', ''WEAK'')
               else
                 (''FAIL'', ''High Risk'', ''WEAK''));
            adjusted_probability' =
              (if verdict' = ''FAIL'' then min base_probability 0.45
               else if verdict' = ''CONDITIONAL PASS'' then max 0.45 (min base_probability 0.65)
               else max 0.55 base_probability)
        in Inr \<lparr>verdict = verdict',
                strength = strength',
                risk_level = risk_level',
                adjusted_probability = adjusted_probability',
                weighted_score = weighted_score',
                adjusted_pillar_scores = adjusted_scores,
                below_threshold = below_threshold',
                critical_failures = critical_failures',
                stage_weights = weights,
                stage_thresholds = thresholds\<rparr>)))))))"

text \<open>
  The decision table of the specification, in its own words: rows of a guard and an
  outcome \<open>(verdict, strength, risk)\<close>, evaluated top to bottom; the first row whose
  guard holds gives the outcome.
\<close>

definition decision_rows ::
    "string list \<Rightarrow> string list \<Rightarrow> real \<Rightarrow> (bool \<times> string \<times> string \<times> string) list" where
  "decision_rows failures below score =
    [(failures \<noteq> [], ''FAIL'', ''CRITICAL'', ''Critical Risk''),
     (below = [] \<and> score \<ge> 0.60, ''PASS'', ''STRONG'', ''Low Risk''),
     (length below \<le> 1 \<and> score \<ge> 0.55, ''CONDITIONAL PASS'', ''MODERATE'', ''Medium Risk''),
     (score \<ge> 0.50 \<and> length below \<le> 2, ''CONDITIONAL PASS'', ''WEAK'', ''Medium-High Risk''),
     (True, ''FAIL'', ''WEAK'', ''High Risk'')]"

definition first_match :: "(bool \<times> 'a) list \<Rightarrow> 'a option" where
  "first_match rows = map_option snd (find fst rows)"

text \<open>
  Steps 1 and 2 of the classifier in the specification's words: the pillars whose
  adjusted score is below the threshold of the stage profile, and the products of each
  adjusted score with the weight of its pillar, whose sum is the weighted score.
\<close>

definition pillars_below :: "pillar_dict \<Rightarrow> pillar_dict \<Rightarrow> string list" where
  "pillars_below adjusted thresholds =
    map fst
      (filter (\<lambda>(p, a). case map_of thresholds p of None \<Rightarrow> False | Some t \<Rightarrow> a < t) adjusted)"

definition weighted_terms :: "float_ops \<Rightarrow> pillar_dict \<Rightarrow> pillar_dict \<Rightarrow> real list" where
  "weighted_terms ops adjusted weights =
    map (\<lambda>(p, a). fmul ops a (case map_of weights p of None \<Rightarrow> 0 | Some w \<Rightarrow> w)) adjusted"

text \<open>
  An adjusted score set belongs to a raw score set when it has the same pillars in the
  same order and each score is what the adjuster returns for the raw score.
\<close>

definition adjusted_from :: "float_ops \<Rightarrow> metrics \<Rightarrow> pillar_dict \<Rightarrow> pillar_dict \<Rightarrow> bool" where
  "adjusted_from ops data pillar_scores adjusted =
    list_all2
      (\<lambda>(p, s) (p', a). p' = p \<and> calculate_risk_adjusted_score ops s p data = Inr a)
      pillar_scores adjusted"

text \<open>
  Two sample requests at the Seed profile with all four pillar scores at 1 and no
  adjustment rule firing: one with two months of runway (a critical failure with a
  weighted score of 1), one with eighteen months of runway (no critical failure).
\<close>

definition sample_scores :: pillar_dict where
  "sample_scores = [(''capital'', 1), (''advantage'', 1), (''market'', 1), (''people'', 1)]"

definition sample_metrics :: "real \<Rightarrow> metrics" where
  "sample_metrics runway =
    [''funding_stage'' \<mapsto> PStr ''seed'', ''runway_months'' \<mapsto> PNum runway,
     ''investor_tier_primary'' \<mapsto> PStr ''Tier 1'', ''network_effects_present'' \<mapsto> PBool True,
     ''switching_cost_score'' \<mapsto> PNum 4, ''prior_successful_exits_count'' \<mapsto> PNum 1,
     ''team_diversity_percent'' \<mapsto> PNum 30, ''founders_count'' \<mapsto> PNum 2]"

definition sample_result :: "string list \<Rightarrow> string \<Rightarrow> string \<Rightarrow> string \<Rightarrow> real \<Rightarrow> evaluation" where
  "sample_result failures v s rl p =
    \<lparr>verdict = v, strength = s, risk_level = rl,
     adjusted_probability = p, weighted_score = 1,
     adjusted_pillar_scores = [(''capital'', 1), (''advantage'', 1), (''market'', 1), (''people'', 1)],
     below_threshold = [], critical_failures = failures,
     stage_weights = [(''capital'', 0.20), (''advantage'', 0.30), (''market'', 0.25), (''people'', 0.25)],
     stage_thresholds = [(''capital'', 0.35), (''advantage'', 0.45), (''market'', 0.40), (''people'', 0.50)]\<rparr>"

text \<open>
  A sample on the boundary of the PASS row: scores 0.5, 0.75, 0.4 and 0.7 at the Seed
  profile. The exact weighted score is 0.6. In double arithmetic the product
  \<^verbatim>\<open>0.75 * 0.3\<close> is \<^verbatim>\<open>0.22499999999999998\<close> and the left-to-right sum of the four
  products is \<^verbatim>\<open>0.5999999999999999\<close>; \<open>sample_double_ops\<close> has these values and is
  exact elsewhere.
\<close>

definition boundary_scores :: pillar_dict where
  "boundary_scores = [(''capital'', 0.5), (''advantage'', 0.75), (''market'', 0.4), (''people'', 0.7)]"

definition sample_double_ops :: float_ops where
  "sample_double_ops =
    \<lparr>fadd = (+),
     fmul = (\<lambda>a b. if a = 0.75 \<and> b = 0.3 then 0.22499999999999998 else a * b),
     fsum = (\<lambda>ts. if ts = [0.1, 0.22499999999999998, 0.1, 0.175] then 0.5999999999999999
                  else sum_list ts)\<rparr>"

definition boundary_result :: "string \<Rightarrow> string \<Rightarrow> string \<Rightarrow> real \<Rightarrow> real \<Rightarrow> evaluation" where
  "boundary_result v s rl p ws =
    \<lparr>verdict = v, strength = s, risk_level = rl,
     adjusted_probability = p, weighted_score = ws,
     adjusted_pillar_scores = boundary_scores,
     below_threshold = [], critical_failures = [],
     stage_weights = [(''capital'', 0.20), (''advantage'', 0.30), (''market'', 0.25), (''people'', 0.25)],
     stage_thresholds = [(''capital'', 0.35), (''advantage'', 0.45), (''market'', 0.40), (''people'', 0.50)]\<rparr>"

section \<open>Probability blender: model-family fusion\<close>





section \<open>Insight synthesizer\<close>

text \<open>
  The insight texts of \<^verbatim>\<open>generate_insights\<close>. Each literal of the source starts with
  an icon that is not ASCII; the icon is given by its bytes in the UTF-8 source file,
  followed by the rest of the literal. A text with a \<^verbatim>\<open>{}\<close> field takes the
  formatted value as its argument.
\<close>

definition runway_critical_insight :: string where
  "runway_critical_insight =
    [CHR 0xEF, CHR 0xA3, CHR 0xBF, CHR 0xC3, CHR 0xBC, CHR 0xC3, CHR 0xB6, CHR 0xC2, CHR 0xAE]
    @ '' CRITICAL: Less than 6 months runway - immediate funding needed''"

definition runway_warning_insight :: string where
  "runway_warning_insight =
    [CHR 0xE2, CHR 0x80, CHR 0x9A, CHR 0xC3, CHR 0xB6, CHR 0xE2, CHR 0x80, CHR 0xA0, CHR 0xC3, CHR 0x94, CHR 0xE2, CHR 0x88, CHR 0x8F, CHR 0xC3, CHR 0xA8]
    @ '' Warning: Runway below 12 months - plan next raise''"

definition burn_insight :: string where
  "burn_insight =
    [CHR 0xEF, CHR 0xA3, CHR 0xBF, CHR 0xC3, CHR 0xBC, CHR 0xC3, CHR 0xAE, CHR 0xE2, CHR 0x80, CHR 0xA2]
    @ '' High burn multiple - improve capital efficiency''"

definition capital_strong_insight :: string where
  "capital_strong_insight =
    [CHR 0xEF, CHR 0xA3, CHR 0xBF, CHR 0xC3, CHR 0xBC, CHR 0xC3, CHR 0xAD, CHR 0xE2, CHR 0x84, CHR 0xA2]
    @ '' Strong capital position with healthy metrics''"

definition capital_weak_insight :: string where
  "capital_weak_insight =
    [CHR 0xEF, CHR 0xA3, CHR 0xBF, CHR 0xC3, CHR 0xBC, CHR 0xC3, CHR 0xAD, CHR 0xE2, CHR 0x88, CHR 0x8F]
    @ '' Capital concerns - focus on fundraising or revenue''"

definition advantage_strong_insight :: string where
  "advantage_strong_insight =
    [CHR 0xEF, CHR 0xA3, CHR 0xBF, CHR 0xC3, CHR 0xBC, CHR 0xC3, CHR 0xB5, CHR 0xC2, CHR 0xB0, CHR 0xC3, CHR 0x94, CHR 0xE2, CHR 0x88, CHR 0x8F, CHR 0xC3, CHR 0xA8]
    @ '' Strong competitive moat and differentiation''"

definition advantage_weak_insight :: string where
  "advantage_weak_insight =
    [CHR 0xE2, CHR 0x80, CHR 0x9A, CHR 0xC3, CHR 0xB6, CHR 0xC2, CHR 0xB0]
    @ '' Weak competitive position - build differentiation''"

definition market_strong_insight :: string where
  "market_strong_insight =
    [CHR 0xEF, CHR 0xA3, CHR 0xBF, CHR 0xC3, CHR 0xBC, CHR 0xC3, CHR 0xA9, CHR 0xC3, CHR 0x98]
    @ '' Excellent market fit and positioning''"

definition market_weak_insight :: string where
  "market_weak_insight =
    [CHR 0xEF, CHR 0xA3, CHR 0xBF, CHR 0xC3, CHR 0xBC, CHR 0xC3, CHR 0xAC, CHR 0xC3, CHR 0xA4]
    @ '' Market challenges - improve PMF and retention''"

definition people_strong_insight :: string where
  "people_strong_insight =
    [CHR 0xEF, CHR 0xA3, CHR 0xBF, CHR 0xC3, CHR 0xBC, CHR 0xC3, CHR 0xAB, CHR 0xE2, CHR 0x80, CHR 0xA2]
    @ '' World-class team with proven experience''"

definition people_weak_insight :: string where
  "people_weak_insight =
    [CHR 0xEF, CHR 0xA3, CHR 0xBF, CHR 0xC3, CHR 0xBC, CHR 0xC2, CHR 0xA7, CHR 0xC3, CHR 0xB9]
    @ '' Team gaps - hire senior talent or advisors''"

definition hypergrowth_insight :: "string \<Rightarrow> string" where
  "hypergrowth_insight v =
    [CHR 0xEF, CHR 0xA3, CHR 0xBF, CHR 0xC3, CHR 0xBC, CHR 0xC3, CHR 0xB6, CHR 0xC3, CHR 0x84]
    @ '' Hypergrowth: '' @ v @ ''% YoY revenue growth''"

definition strong_growth_insight :: "string \<Rightarrow> string" where
  "strong_growth_insight v =
    [CHR 0xEF, CHR 0xA3, CHR 0xBF, CHR 0xC3, CHR 0xBC, CHR 0xC3, CHR 0xAC, CHR 0xC3, CHR 0xA0]
    @ '' Strong growth: '' @ v @ ''% YoY revenue growth''"

definition ndr_insight :: "string \<Rightarrow> string" where
  "ndr_insight v =
    [CHR 0xEF, CHR 0xA3, CHR 0xBF, CHR 0xC3, CHR 0xBC, CHR 0xC3, CHR 0xAD, CHR 0xC3, CHR 0xA9]
    @ '' Excellent NDR: '' @ v @ ''% - strong expansion revenue''"

definition retention_insight :: "string \<Rightarrow> string" where
  "retention_insight v =
    [CHR 0xE2, CHR 0x80, CHR 0x9A, CHR 0xE2, CHR 0x89, CHR 0xA0, CHR 0xC3, CHR 0xAA]
    @ '' Outstanding product retention: '' @ v @ ''% at 30 days''"

definition concentration_insight :: "string \<Rightarrow> string" where
  "concentration_insight v =
    [CHR 0xE2, CHR 0x80, CHR 0x9A, CHR 0xC3, CHR 0xB6, CHR 0xE2, CHR 0x80, CHR 0xA0, CHR 0xC3, CHR 0x94, CHR 0xE2, CHR 0x88, CHR 0x8F, CHR 0xC3, CHR 0xA8]
    @ '' High customer concentration risk: '' @ v @ ''%''"

definition churn_insight :: "string \<Rightarrow> string" where
  "churn_insight v =
    [CHR 0xEF, CHR 0xA3, CHR 0xBF, CHR 0xC3, CHR 0xBC, CHR 0xC3, CHR 0xAC, CHR 0xC3, CHR 0xA2]
    @ '' High churn rate: '' @ v @ ''% monthly''"

text \<open>The critical runway and burn warnings.\<close>

definition critical_warning_messages :: "string list" where
  "critical_warning_messages = [runway_critical_insight, runway_warning_insight, burn_insight]"

text \<open>
  An \<^verbatim>\<open>if c1: insights.append(m1)\<close> / \<^verbatim>\<open>elif c2: insights.append(m2)\<close> statement:
  the second condition is evaluated only when the first is false.
\<close>

definition append_if_elif ::
    "(py_error + bool) \<Rightarrow> string \<Rightarrow> (py_error + bool) \<Rightarrow> string \<Rightarrow> string list
      \<Rightarrow> py_error + string list" where
  "append_if_elif c1 m1 c2 m2 insights =
    (case c1 of
       Inl e \<Rightarrow> Inl e
     | Inr b \<Rightarrow> if b then Inr (insights @ [m1]) else append_if c2 m2 insights)"

text \<open>
  Section \<^verbatim>\<open># Critical warnings first\<close>. \<^verbatim>\<open>data['k']\<close> raises \<^verbatim>\<open>KeyError\<close> on a
  missing key; the payload is not changed between two reads of a key, so each key is
  read once.
\<close>

definition critical_warnings :: "metrics \<Rightarrow> string list \<Rightarrow> py_error + string list" where
  "critical_warnings data insights =
    (case metrics_index data ''runway_months'' of
       Inl e \<Rightarrow> Inl e
     | Inr r \<Rightarrow>
    (case append_if_elif (py_lt r 6) runway_critical_insight
                         (py_lt r 12) runway_warning_insight insights of
       Inl e \<Rightarrow> Inl e
     | Inr i1 \<Rightarrow>
    (case metrics_index data ''burn_multiple'' of
       Inl e \<Rightarrow> Inl e
     | Inr b \<Rightarrow> append_if (py_gt b 5) burn_insight i1)))"

text \<open>
  Section \<^verbatim>\<open># Pillar-specific insights\<close>, over \<^verbatim>\<open>Dict[str, float]\<close> scores;
  \<^verbatim>\<open>if pillar_scores:\<close> skips \<^verbatim>\<open>None\<close> and the empty dict.
\<close>

definition score_get :: "pillar_dict \<Rightarrow> string \<Rightarrow> real \<Rightarrow> real" where
  "score_get d k dflt = (case map_of d k of None \<Rightarrow> dflt | Some v \<Rightarrow> v)"

definition pillar_insight ::
    "pillar_dict \<Rightarrow> string \<Rightarrow> string \<Rightarrow> string \<Rightarrow> string list \<Rightarrow> string list" where
  "pillar_insight d pillar strong weak insights =
    (if score_get d pillar 0 > 0.7 then insights @ [strong]
     else if score_get d pillar 0 < 0.3 then insights @ [weak]
     else insights)"

definition pillar_insights :: "pillar_dict option \<Rightarrow> string list \<Rightarrow> string list" where
  "pillar_insights pillar_scores insights =
    (case pillar_scores of
       None \<Rightarrow> insights
     | Some d \<Rightarrow>
        if d = [] then insights
        else
          (let i1 = pillar_insight d ''capital'' capital_strong_insight capital_weak_insight insights;
               i2 = pillar_insight d ''advantage'' advantage_strong_insight advantage_weak_insight i1;
               i3 = pillar_insight d ''market'' market_strong_insight market_weak_insight i2
           in pillar_insight d ''people'' people_strong_insight people_weak_insight i3))"

text \<open>\<^verbatim>\<open>int(x)\<close> on a float truncates towards zero.\<close>

definition py_int :: "real \<Rightarrow> int" where
  "py_int x = (if x \<ge> 0 then \<lfloor>x\<rfloor> else \<lceil>x\<rceil>)"

text \<open>\<^verbatim>\<open>int(v * 100)\<close> for a numeric \<open>v\<close>, the only case that reaches it.\<close>

definition percent_of :: "pyval \<Rightarrow> pyval" where
  "percent_of v = (case num_of v of None \<Rightarrow> PNone | Some x \<Rightarrow> PNum (of_int (py_int (x * 100))))"

text \<open>
  Section \<^verbatim>\<open># Positive highlights\<close>. The parameter \<open>fmt\<close> is the text that
  \<^verbatim>\<open>str.format\<close> puts for a value in a \<^verbatim>\<open>{}\<close> field.
\<close>

definition positive_highlights ::
    "(pyval \<Rightarrow> string) \<Rightarrow> metrics \<Rightarrow> string list \<Rightarrow> py_error + string list" where
  "positive_highlights fmt data insights =
    (case metrics_index data ''revenue_growth_rate_percent'' of
       Inl e \<Rightarrow> Inl e
     | Inr g \<Rightarrow>
    (case append_if_elif (py_gt g 150) (hypergrowth_insight (fmt g))
                         (py_gt g 100) (strong_growth_insight (fmt g)) insights of
       Inl e \<Rightarrow> Inl e
     | Inr i1 \<Rightarrow>
    (case metrics_index data ''net_dollar_retention_percent'' of
       Inl e \<Rightarrow> Inl e
     | Inr n \<Rightarrow>
    (case append_if (py_gt n 120) (ndr_insight (fmt n)) i1 of
       Inl e \<Rightarrow> Inl e
     | Inr i2 \<Rightarrow>
    (case metrics_index data ''product_retention_30d'' of
       Inl e \<Rightarrow> Inl e
     | Inr p \<Rightarrow> append_if (py_gt p 0.8) (retention_insight (fmt (percent_of p))) i2)))))"

text \<open>Section \<^verbatim>\<open># Red flags\<close>.\<close>

definition red_flags ::
    "(pyval \<Rightarrow> string) \<Rightarrow> metrics \<Rightarrow> string list \<Rightarrow> py_error + string list" where
  "red_flags fmt data insights =
    (case metrics_index data ''customer_concentration_percent'' of
       Inl e \<Rightarrow> Inl e
     | Inr c \<Rightarrow>
    (case append_if (py_gt c 50) (concentration_insight (fmt c)) insights of
       Inl e \<Rightarrow> Inl e
     | Inr i1 \<Rightarrow>
       (let ch = dict_get data ''churn_rate'' (PNum 0)
        in append_if (py_gt ch 10) (churn_insight (fmt ch)) i1)))"

definition generate_insights ::
    "(pyval \<Rightarrow> string) \<Rightarrow> metrics \<Rightarrow> real \<Rightarrow> pillar_dict option \<Rightarrow> py_error + string list" where
  "generate_insights fmt data prediction pillar_scores =
    (case critical_warnings data [] of
       Inl e \<Rightarrow> Inl e
     | Inr i1 \<Rightarrow>
    (case positive_highlights fmt data (pillar_insights pillar_scores i1) of
       Inl e \<Rightarrow> Inl e
     | Inr i2 \<Rightarrow>
    (case red_flags fmt data i2 of
       Inl e \<Rightarrow> Inl e
     | Inr i3 \<Rightarrow> Inr (take 6 i3))))"

text \<open>The numeric reading of a key of the payload, when it is present and numeric.\<close>

definition metric_num :: "metrics \<Rightarrow> string \<Rightarrow> real option" where
  "metric_num data k = (case data k of None \<Rightarrow> None | Some v \<Rightarrow> num_of v)"

text \<open>
  A sample payload for the synthesizer: four months of runway, a burn multiple of 6,
  and revenue growth of 200 percent.
\<close>

definition sample_insight_metrics :: metrics where
  "sample_insight_metrics =
    [''runway_months'' \<mapsto> PNum 4, ''burn_multiple'' \<mapsto> PNum 6,
     ''revenue_growth_rate_percent'' \<mapsto> PNum 200, ''net_dollar_retention_percent'' \<mapsto> PNum 100,
     ''product_retention_30d'' \<mapsto> PNum 0.5, ''customer_concentration_percent'' \<mapsto> PNum 10]"

section \<open>Well-typed payloads\<close>

text \<open>
  The keys of the payload that the detector and the adjuster compare with a number by
  \<^verbatim>\<open><\<close>, \<^verbatim>\<open>>\<close> or \<^verbatim>\<open>>=\<close>. A payload is well typed when each of them is absent or
  numeric, as it is after the validation of the request schema; then no comparison
  raises \<^verbatim>\<open>TypeError\<close>.
\<close>

definition compared_keys :: "string list" where
  "compared_keys =
    [''runway_months'', ''burn_multiple'', ''customer_concentration_percent'', ''churn_rate'',
     ''regulatory_risk_score'', ''competition_intensity'', ''debt_to_equity_ratio'',
     ''switching_cost_score'', ''team_diversity_percent'', ''patent_count'',
     ''net_dollar_retention_percent'', ''prior_successful_exits_count'']"

definition numeric_or_absent :: "metrics \<Rightarrow> string \<Rightarrow> bool" where
  "numeric_or_absent data k = (case data k of None \<Rightarrow> True | Some v \<Rightarrow> num_of v \<noteq> None)"

definition well_typed :: "metrics \<Rightarrow> bool" where
  "well_typed data = list_all (numeric_or_absent data) compared_keys"

definition pillar_names :: "string list" where
  "pillar_names = [''capital'', ''advantage'', ''market'', ''people'']"

section \<open>Properties of the stage profile registry\<close>

lemma seed_weights:
  "dict_index weights_table ''Seed'' =
     Inr [(''capital'', 0.20), (''advantage'', 0.30), (''market'', 0.25), (''people'', 0.25)]"
  by (simp add: dict_index_def weights_table_def)

lemma seed_thresholds:
  "dict_index thresholds_table ''Seed'' =
     Inr [(''capital'', 0.35), (''advantage'', 0.45), (''market'', 0.40), (''people'', 0.50)]"
  by (simp add: dict_index_def thresholds_table_def)

lemma table_keys:
  "map fst weights_table = stage_order" "map fst thresholds_table = stage_order"
  by (simp_all add: weights_table_def thresholds_table_def stage_order_def)

lemma table_get_miss:
  assumes "s \<notin> set (map fst t)"
  shows "table_get t (PStr s) dflt = dflt"
proof -
  from assms have "map_of t s = None"
    by (simp add: map_of_eq_None_iff)
  then show ?thesis
    by (simp add: table_get_def)
qed

lemma get_stage_weights_miss:
  assumes "s \<notin> set stage_order"
  shows "get_stage_weights (PStr s) =
     Inr [(''capital'', 0.20), (''advantage'', 0.30), (''market'', 0.25), (''people'', 0.25)]"
  using assms by (simp add: get_stage_weights_def seed_weights table_get_miss table_keys)

lemma get_stage_thresholds_miss:
  assumes "s \<notin> set stage_order"
  shows "get_stage_thresholds (PStr s) =
     Inr [(''capital'', 0.35), (''advantage'', 0.45), (''market'', 0.40), (''people'', 0.50)]"
  using assms by (simp add: get_stage_thresholds_def seed_thresholds table_get_miss table_keys)

lemma get_stage_weights_Seed:
  "get_stage_weights (PStr ''Seed'') =
     Inr [(''capital'', 0.20), (''advantage'', 0.30), (''market'', 0.25), (''people'', 0.25)]"
  unfolding get_stage_weights_def seed_weights
  by (simp add: table_get_def weights_table_def)

lemma get_stage_thresholds_Seed:
  "get_stage_thresholds (PStr ''Seed'') =
     Inr [(''capital'', 0.35), (''advantage'', 0.45), (''market'', 0.40), (''people'', 0.50)]"
  unfolding get_stage_thresholds_def seed_thresholds
  by (simp add: table_get_def thresholds_table_def)

lemma schema_stage_not_in_table:
  "s \<in> set funding_stage_pattern \<Longrightarrow> s \<notin> set stage_order"
  by (auto simp: funding_stage_pattern_def stage_order_def)

text \<open>
  C8. The two lookups are total over stage strings: a stage string that is not a key of
  the fixed table (such as \<^verbatim>\<open>unicorn_plus\<close>) yields the Seed weights and the Seed
  thresholds, and no error is raised.
\<close>

theorem unknown_stage_falls_back_to_seed:
  assumes "s \<notin> set stage_order"
  shows "get_stage_weights (PStr s) =
           Inr [(''capital'', 0.20), (''advantage'', 0.30), (''market'', 0.25), (''people'', 0.25)]
       \<and> get_stage_thresholds (PStr s) =
           Inr [(''capital'', 0.35), (''advantage'', 0.45), (''market'', 0.40), (''people'', 0.50)]"
  using assms by (simp add: get_stage_weights_miss get_stage_thresholds_miss)

theorem unknown_stage_falls_back_to_seed_witness:
  "''unicorn_plus'' \<notin> set stage_order
   \<and> get_stage_weights (PStr ''unicorn_plus'') =
       Inr [(''capital'', 0.20), (''advantage'', 0.30), (''market'', 0.25), (''people'', 0.25)]
   \<and> get_stage_thresholds (PStr ''unicorn_plus'') =
       Inr [(''capital'', 0.35), (''advantage'', 0.45), (''market'', 0.40), (''people'', 0.50)]"
proof -
  have h: "''unicorn_plus'' \<notin> set stage_order"
    by (simp add: stage_order_def)
  show ?thesis
    using h unknown_stage_falls_back_to_seed [OF h] by simp
qed

text \<open>
  C3. Every \<^verbatim>\<open>funding_stage\<close> that the request schema accepts (lowercase snake case)
  misses the tables, which are keyed by display names, so on the validated domain both
  lookups return the Seed entry: they agree with the lookup of \<^verbatim>\<open>Seed\<close> itself.
\<close>

theorem schema_stage_resolves_to_seed:
  assumes "s \<in> set funding_stage_pattern"
  shows "get_stage_weights (PStr s) = get_stage_weights (PStr ''Seed'')
       \<and> get_stage_thresholds (PStr s) = get_stage_thresholds (PStr ''Seed'')
       \<and> get_stage_weights (PStr s) =
           Inr [(''capital'', 0.20), (''advantage'', 0.30), (''market'', 0.25), (''people'', 0.25)]
       \<and> get_stage_thresholds (PStr s) =
           Inr [(''capital'', 0.35), (''advantage'', 0.45), (''market'', 0.40), (''people'', 0.50)]"
  using schema_stage_not_in_table [OF assms]
  by (simp add: get_stage_weights_miss get_stage_thresholds_miss
      get_stage_weights_Seed get_stage_thresholds_Seed)

theorem schema_stage_resolves_to_seed_witness:
  "''series_c'' \<in> set funding_stage_pattern
   \<and> get_stage_weights (PStr ''series_c'') = get_stage_weights (PStr ''Seed'')
   \<and> get_stage_thresholds (PStr ''series_c'') = get_stage_thresholds (PStr ''Seed'')
   \<and> get_stage_weights (PStr ''series_c'') =
       Inr [(''capital'', 0.20), (''advantage'', 0.30), (''market'', 0.25), (''people'', 0.25)]
   \<and> get_stage_thresholds (PStr ''series_c'') =
       Inr [(''capital'', 0.35), (''advantage'', 0.45), (''market'', 0.40), (''people'', 0.50)]"
proof -
  have h: "''series_c'' \<in> set funding_stage_pattern"
    by (simp add: funding_stage_pattern_def)
  show ?thesis
    using h schema_stage_resolves_to_seed [OF h] by blast
qed

text \<open>
  C7, as stated: for each of the four pillars the thresholds do not decrease along the
  stage order. The people pillar refutes it: its threshold is 0.50 at Seed and 0.45 at
  Series A.
\<close>

theorem people_threshold_drops_at_series_a:
  "get_stage_thresholds (PStr ''Seed'') =
     Inr [(''capital'', 0.35), (''advantage'', 0.45), (''market'', 0.40), (''people'', 0.50)]
   \<and> get_stage_thresholds (PStr ''Series A'') =
     Inr [(''capital'', 0.45), (''advantage'', 0.50), (''market'', 0.50), (''people'', 0.45)]
   \<and> \<not> threshold_le ''people'' ''Seed'' ''Series A''"
  unfolding threshold_le_def get_stage_thresholds_def seed_thresholds
  by (simp add: table_get_def thresholds_table_def)

text \<open>
  C7, amended: along the stage order Pre-seed, Seed, Series A, Series B, Series C the
  thresholds are 0.30, 0.35, 0.45, 0.50, 0.55 for capital, 0.40, 0.45, 0.50, 0.55, 0.60
  for advantage, 0.30, 0.40, 0.50, 0.55, 0.60 for market and 0.50, 0.50, 0.45, 0.50,
  0.55 for people. For capital, advantage and market they do not decrease between any
  two stages taken in stage order. For people they decrease from Pre-seed to Series A
  and from Seed to Series A, and do not decrease between any other two stages taken in
  stage order.
\<close>

theorem thresholds_nondecreasing_except_people_series_a:
  "map (threshold_of ''capital'') stage_order = [Some 0.30, Some 0.35, Some 0.45, Some 0.50, Some 0.55]
   \<and> map (threshold_of ''advantage'') stage_order = [Some 0.40, Some 0.45, Some 0.50, Some 0.55, Some 0.60]
   \<and> map (threshold_of ''market'') stage_order = [Some 0.30, Some 0.40, Some 0.50, Some 0.55, Some 0.60]
   \<and> map (threshold_of ''people'') stage_order = [Some 0.50, Some 0.50, Some 0.45, Some 0.50, Some 0.55]
   \<and> sorted_wrt (threshold_le ''capital'') stage_order
   \<and> sorted_wrt (threshold_le ''advantage'') stage_order
   \<and> sorted_wrt (threshold_le ''market'') stage_order
   \<and> sorted_wrt (threshold_le ''people'') [''Pre-seed'', ''Seed'', ''Series B'', ''Series C'']
   \<and> sorted_wrt (threshold_le ''people'') [''Series A'', ''Series B'', ''Series C'']
   \<and> \<not> threshold_le ''people'' ''Pre-seed'' ''Series A''
   \<and> \<not> threshold_le ''people'' ''Seed'' ''Series A''"
  unfolding threshold_le_def threshold_of_def get_stage_thresholds_def seed_thresholds
  by (simp add: stage_order_def table_get_def thresholds_table_def)

section \<open>Properties of the critical failure detector\<close>

lemma append_if_Inr:
  "append_if c msg failures = Inr fs \<Longrightarrow>
     \<exists>b. c = Inr b \<and> fs = (if b then failures @ [msg] else failures)"
  by (cases c) (simp_all add: append_if_def)

lemma append_if_bindE:
  assumes "(case append_if c msg failures of Inl e \<Rightarrow> Inl e | Inr f \<Rightarrow> k f) = Inr fs"
  obtains b where "c = Inr b" and "k (failures @ (if b then [msg] else [])) = Inr fs"
  using assms by (cases c) (simp_all add: append_if_def split: if_splits)

lemma append_if_lastE:
  assumes "append_if c msg failures = Inr fs"
  obtains b where "c = Inr b" and "fs = failures @ (if b then [msg] else [])"
  using assms by (cases c) (simp_all add: append_if_def split: if_splits)

lemma check_critical_failures_Inr:
  assumes "check_critical_failures data = Inr fs"
  shows "\<exists>c1 c2 c3 c4.
      py_lt (dict_get data ''runway_months'' (PNum 0)) 3 = Inr c1
    \<and> py_gt (dict_get data ''burn_multiple'' (PNum 0)) 5 = Inr c2
    \<and> py_gt (dict_get data ''customer_concentration_percent'' (PNum 0)) 80 = Inr c3
    \<and> py_gt (dict_get data ''churn_rate'' (PNum 0)) 20 = Inr c4
    \<and> fs = (if c1 then [runway_failure] else []) @ (if c2 then [burn_failure] else [])
          @ (if c3 then [concentration_failure] else []) @ (if c4 then [churn_failure] else [])
          @ (if py_eq_num (dict_get data ''founders_count'' (PNum 1)) 1
                \<and> py_truthy (dict_get data ''key_person_dependency'' (PBool True))
             then [founder_failure] else [])"
proof -
  note a = assms [unfolded check_critical_failures_def]
  from a obtain c1 c2 c3 c4 c5 where
    "py_lt (dict_get data ''runway_months'' (PNum 0)) 3 = Inr c1"
    "py_gt (dict_get data ''burn_multiple'' (PNum 0)) 5 = Inr c2"
    "py_gt (dict_get data ''customer_concentration_percent'' (PNum 0)) 80 = Inr c3"
    "py_gt (dict_get data ''churn_rate'' (PNum 0)) 20 = Inr c4"
    "Inr (py_eq_num (dict_get data ''founders_count'' (PNum 1)) 1
                \<and> py_truthy (dict_get data ''key_person_dependency'' (PBool True))) = (Inr c5 :: py_error + bool)"
    "fs = ((((([] @ (if c1 then [runway_failure] else [])) @ (if c2 then [burn_failure] else []))
          @ (if c3 then [concentration_failure] else [])) @ (if c4 then [churn_failure] else []))
          @ (if c5 then [founder_failure] else []))"
    by (elim append_if_bindE append_if_lastE)
  then show ?thesis by simp
qed

lemma failure_messages_distinct:
  "distinct [runway_failure, burn_failure, concentration_failure, churn_failure, founder_failure]"
  by (simp add: runway_failure_def burn_failure_def concentration_failure_def churn_failure_def
      founder_failure_def)

text \<open>
  C9. When \<^verbatim>\<open>runway_months\<close> is absent from the payload, the detector reads it as 0:
  the result is the one for the payload with \<^verbatim>\<open>runway_months = 0\<close>, and its first
  entry is the runway failure. When \<^verbatim>\<open>churn_rate\<close> is absent, the churn failure is not
  reported.
\<close>

theorem missing_runway_fires_missing_churn_silent:
  assumes "check_critical_failures data = Inr fs"
  shows "(data ''runway_months'' = None \<longrightarrow>
            (\<exists>rest. fs = runway_failure # rest)
          \<and> check_critical_failures (data(''runway_months'' \<mapsto> PNum 0)) = Inr fs)
       \<and> (data ''churn_rate'' = None \<longrightarrow> churn_failure \<notin> set fs)"
proof (intro conjI impI)
  from check_critical_failures_Inr [OF assms] obtain c1 c2 c3 c4 where
    c1: "py_lt (dict_get data ''runway_months'' (PNum 0)) 3 = Inr c1" and
    c4: "py_gt (dict_get data ''churn_rate'' (PNum 0)) 20 = Inr c4" and
    fs: "fs = (if c1 then [runway_failure] else []) @ (if c2 then [burn_failure] else [])
          @ (if c3 then [concentration_failure] else []) @ (if c4 then [churn_failure] else [])
          @ (if py_eq_num (dict_get data ''founders_count'' (PNum 1)) 1
                \<and> py_truthy (dict_get data ''key_person_dependency'' (PBool True))
             then [founder_failure] else [])"
    by blast
  {
    assume absent: "data ''runway_months'' = None"
    with c1 have "c1" by (simp add: dict_get_def py_lt_def)
    with fs show "\<exists>rest. fs = runway_failure # rest" by simp
    have eq: "dict_get (data(''runway_months'' \<mapsto> PNum 0)) k d = dict_get data k d"
      if "k \<noteq> ''runway_months'' \<or> d = PNum 0" for k d
      using that absent by (auto simp: dict_get_def)
    have "check_critical_failures (data(''runway_months'' \<mapsto> PNum 0))
        = check_critical_failures data"
      unfolding check_critical_failures_def by (simp add: eq cong: sum.case_cong)
    with assms show "check_critical_failures (data(''runway_months'' \<mapsto> PNum 0)) = Inr fs"
      by simp
  }
  {
    assume "data ''churn_rate'' = None"
    with c4 have "\<not> c4" by (simp add: dict_get_def py_gt_def)
    with fs failure_messages_distinct show "churn_failure \<notin> set fs" by auto
  }
qed

theorem missing_runway_fires_missing_churn_silent_witness:
  "check_critical_failures Map.empty = Inr [runway_failure, founder_failure]
   \<and> (\<exists>rest. [runway_failure, founder_failure] = runway_failure # rest)
   \<and> check_critical_failures (Map.empty(''runway_months'' \<mapsto> PNum 0))
       = Inr [runway_failure, founder_failure]
   \<and> churn_failure \<notin> set [runway_failure, founder_failure]"
proof -
  have h: "check_critical_failures Map.empty = Inr [runway_failure, founder_failure]"
    by (simp add: check_critical_failures_def append_if_def dict_get_def py_lt_def py_gt_def
        py_eq_num_def)
  show ?thesis
    using h missing_runway_fires_missing_churn_silent [OF h] by simp
qed

section \<open>Properties of the pillar risk adjuster\<close>

lemma calculate_risk_adjusted_score_Inr:
  "calculate_risk_adjusted_score ops base_score pillar_name data = Inr r \<Longrightarrow>
     \<exists>a. r = max 0 (min 1 a)"
  by (auto simp: calculate_risk_adjusted_score_def split: sum.splits)

text \<open>
  C5. Whatever the pillar name, the base score (so in particular a base score in
  \<open>[0,1]\<close>), the payload and the rounding of the float additions, a score that the
  adjuster returns lies in \<open>[0,1]\<close>.
\<close>

theorem adjusted_score_in_unit_interval:
  assumes "calculate_risk_adjusted_score ops base_score pillar_name data = Inr r"
  shows "0 \<le> r \<and> r \<le> 1"
  using calculate_risk_adjusted_score_Inr [OF assms] by auto

theorem adjusted_score_in_unit_interval_witness:
  "calculate_risk_adjusted_score exact_ops 0.03 ''market''
     [''customer_concentration_percent'' \<mapsto> PNum 60, ''regulatory_risk_score'' \<mapsto> PNum 5,
      ''competition_intensity'' \<mapsto> PNum 4] = Inr 0
   \<and> (0::real) \<le> 0 \<and> (0::real) \<le> 1"
proof -
  have h: "calculate_risk_adjusted_score exact_ops 0.03 ''market''
     [''customer_concentration_percent'' \<mapsto> PNum 60, ''regulatory_risk_score'' \<mapsto> PNum 5,
      ''competition_intensity'' \<mapsto> PNum 4] = Inr 0"
    by (simp add: calculate_risk_adjusted_score_def risk_factors_def positive_factors_def
        adjust_if_def exact_ops_def py_and_def py_gt_def py_ge_def dict_get_def)
  show ?thesis
    using h adjusted_score_in_unit_interval [OF h] by simp
qed

text \<open>
  C4. The claim exempts the schema values \<^verbatim>\<open>tier_1\<close> and \<^verbatim>\<open>tier_2\<close> from the
  investor-tier penalty. The code compares with \<^verbatim>\<open>'Tier 1'\<close> and \<^verbatim>\<open>'Tier 2'\<close>, so a
  debt-free startup with a \<^verbatim>\<open>tier_1\<close> investor and a capital base score of 0.5 gets
  0.45 (the float \<^verbatim>\<open>0.5 - 0.05\<close> is \<^verbatim>\<open>0.45\<close>): the penalty is applied, whatever the
  rounding of the subtraction is.
\<close>

theorem tier_1_investor_is_penalised:
  "calculate_risk_adjusted_score exact_ops 0.5 ''capital''
     [''investor_tier_primary'' \<mapsto> PStr ''tier_1'', ''has_debt'' \<mapsto> PBool False] = Inr 0.45
   \<and> calculate_risk_adjusted_score ops 0.5 ''capital''
     [''investor_tier_primary'' \<mapsto> PStr ''tier_1'', ''has_debt'' \<mapsto> PBool False] =
       Inr (max 0 (min 1 (fadd ops 0.5 (- 0.05))))"
  by (simp add: calculate_risk_adjusted_score_def risk_factors_def positive_factors_def
      adjust_if_def exact_ops_def py_and_def dict_get_def)

section \<open>Properties of the verdict classifier\<close>

lemma sum_bindE:
  assumes "(case m of Inl e \<Rightarrow> Inl e | Inr x \<Rightarrow> k x) = Inr r"
  obtains x where "m = Inr x" and "k x = Inr r"
  using assms by (cases m) simp_all

lemma evaluate_Inr_failures:
  assumes "evaluate_startup_comprehensive ops ps data bp = Inr r"
  shows "check_critical_failures data = Inr (critical_failures r)"
  using assms unfolding evaluate_startup_comprehensive_def Let_def
  by (elim sum_bindE) (auto split: prod.splits)

lemma evaluate_Inr_adjusted:
  assumes "evaluate_startup_comprehensive ops ps data bp = Inr r"
  shows "map_result
           (\<lambda>(pillar, score).
              case calculate_risk_adjusted_score ops score pillar data of
                Inl e \<Rightarrow> Inl e
              | Inr a \<Rightarrow> Inr (pillar, a))
           ps = Inr (adjusted_pillar_scores r)"
  using assms unfolding evaluate_startup_comprehensive_def Let_def
  by (elim sum_bindE) (auto split: prod.splits)

lemma evaluate_Inr_profile:
  assumes "evaluate_startup_comprehensive ops ps data bp = Inr r"
  shows "get_stage_weights (dict_get data ''funding_stage'' (PStr ''Seed'')) = Inr (stage_weights r)"
    and "get_stage_thresholds (dict_get data ''funding_stage'' (PStr ''Seed'')) =
           Inr (stage_thresholds r)"
  using assms unfolding evaluate_startup_comprehensive_def Let_def
  by (elim sum_bindE; auto split: prod.splits)+

lemma evaluate_Inr_below:
  assumes "evaluate_startup_comprehensive ops ps data bp = Inr r"
  shows "\<exists>adj t below.
           adjusted_pillar_scores r = adj \<and> stage_thresholds r = t
         \<and> filter_result
             (\<lambda>(pillar, score).
                case dict_index t pillar of
                  Inl e \<Rightarrow> Inl e
                | Inr th \<Rightarrow> Inr (score < th))
             adj = Inr below
         \<and> below_threshold r = map fst below"
  using assms unfolding evaluate_startup_comprehensive_def Let_def
  by (elim sum_bindE) (auto split: prod.splits)

lemma evaluate_Inr_terms:
  assumes "evaluate_startup_comprehensive ops ps data bp = Inr r"
    and "adjusted_pillar_scores r = adj" and "stage_weights r = w"
  shows "case map_result
                (\<lambda>pillar.
                   case dict_index adj pillar of
                     Inl e \<Rightarrow> Inl e
                   | Inr a \<Rightarrow>
                      (case dict_index w pillar of
                         Inl e \<Rightarrow> Inl e
                       | Inr wt \<Rightarrow> Inr (fmul ops a wt)))
                (map fst adj) of
           Inl e \<Rightarrow> False
         | Inr terms \<Rightarrow> weighted_score r = fsum ops terms"
  using assms unfolding evaluate_startup_comprehensive_def Let_def
  by (elim sum_bindE) (auto split: prod.splits cong: sum.case_cong)

lemma evaluate_Inr_verdict:
  assumes "evaluate_startup_comprehensive ops ps data bp = Inr r"
  shows "(verdict r, risk_level r, strength r) =
              (if critical_failures r \<noteq> [] then
                 (''FAIL'', ''Critical Risk'', ''CRITICAL'')
               else if length (below_threshold r) = 0 \<and> weighted_score r \<ge> 0.6 then
                 (''PASS'', ''Low Risk'', ''STRONG'')
               else if length (below_threshold r) \<le> 1 \<and> weighted_score r \<ge> 0.55 then
                 (''CONDITIONAL PASS'', ''Medium Risk'', ''MODERATE'')
               else if weighted_score r \<ge> 0.5 \<and> length (below_threshold r) \<le> 2 then
                 (''CONDITIONAL PASS'', ''Medium-High Risk'', ''WEAK'')
               else
                 (''FAIL'', ''High Risk'', ''WEAK''))"
  using assms unfolding evaluate_startup_comprehensive_def Let_def
  by (elim sum_bindE) (auto split: prod.splits)

lemma evaluate_Inr_probability:
  assumes "evaluate_startup_comprehensive ops ps data bp = Inr r"
  shows "adjusted_probability r =
              (if verdict r = ''FAIL'' then min bp 0.45
               else if verdict r = ''CONDITIONAL PASS'' then max 0.45 (min bp 0.65)
               else max 0.55 bp)"
  using assms unfolding evaluate_startup_comprehensive_def Let_def
  by (elim sum_bindE) (auto split: prod.splits)

lemma evaluate_Inr_verdict_cases:
  assumes "evaluate_startup_comprehensive ops ps data bp = Inr r"
  shows "verdict r = ''FAIL'' \<or> verdict r = ''CONDITIONAL PASS'' \<or> verdict r = ''PASS''"
  using evaluate_Inr_verdict [OF assms] by (auto split: if_splits)

lemma adjusted_from_map_result:
  assumes "map_result
             (\<lambda>(pillar, score).
                case calculate_risk_adjusted_score ops score pillar data of
                  Inl e \<Rightarrow> Inl e
                | Inr a \<Rightarrow> Inr (pillar, a))
             ps = Inr adj"
  shows "adjusted_from ops data ps adj"
  using assms
proof (induction ps arbitrary: adj)
  case Nil
  then show ?case by (simp add: adjusted_from_def)
next
  case (Cons x ps)
  obtain p s where x: "x = (p, s)" by (cases x)
  from Cons.prems x obtain a rest where
    a: "calculate_risk_adjusted_score ops s p data = Inr a" and
    rest: "map_result
             (\<lambda>(pillar, score).
                case calculate_risk_adjusted_score ops score pillar data of
                  Inl e \<Rightarrow> Inl e
                | Inr a \<Rightarrow> Inr (pillar, a))
             ps = Inr rest" and
    adj: "adj = (p, a) # rest"
    by (auto split: sum.splits)
  from Cons.IH [OF rest] have "adjusted_from ops data ps rest" .
  with a x adj show ?case
    by (simp add: adjusted_from_def)
qed

lemma adjusted_from_keys:
  assumes "adjusted_from ops data ps adj"
  shows "map fst adj = map fst ps"
proof -
  from assms have "list_all2 (\<lambda>x y. fst y = fst x) ps adj"
    unfolding adjusted_from_def by (rule list_all2_mono) auto
  then show ?thesis
    by (induction rule: list_all2_induct) simp_all
qed

lemma below_threshold_spec:
  assumes "filter_result
             (\<lambda>(pillar, score).
                case dict_index t pillar of
                  Inl e \<Rightarrow> Inl e
                | Inr th \<Rightarrow> Inr (score < th))
             adj = Inr below"
  shows "map fst below = pillars_below adj t"
  using assms
proof (induction adj arbitrary: below)
  case Nil
  then show ?case by (simp add: pillars_below_def)
next
  case (Cons x adj)
  obtain p a where x: "x = (p, a)" by (cases x)
  from Cons.prems x obtain th rest where
    th: "map_of t p = Some th" and
    rest: "filter_result
             (\<lambda>(pillar, score).
                case dict_index t pillar of
                  Inl e \<Rightarrow> Inl e
                | Inr th \<Rightarrow> Inr (score < th))
             adj = Inr rest" and
    below: "below = (if a < th then (p, a) # rest else rest)"
    by (auto simp: dict_index_def split: sum.splits option.splits)
  from Cons.IH [OF rest] have "map fst rest = pillars_below adj t" .
  with th x below show ?case
    by (simp add: pillars_below_def)
qed

lemma weighted_terms_spec:
  assumes "distinct (map fst adj)" and "set xs \<subseteq> set adj"
    and "map_result
           (\<lambda>pillar.
              case dict_index adj pillar of
                Inl e \<Rightarrow> Inl e
              | Inr a \<Rightarrow>
                 (case dict_index w pillar of
                    Inl e \<Rightarrow> Inl e
                  | Inr wt \<Rightarrow> Inr (fmul ops a wt)))
           (map fst xs) = Inr terms"
  shows "terms = weighted_terms ops xs w"
  using assms(2,3)
proof (induction xs arbitrary: terms)
  case Nil
  then show ?case by (simp add: weighted_terms_def)
next
  case (Cons x xs)
  obtain p a where x: "x = (p, a)" by (cases x)
  with Cons.prems(1) have "(p, a) \<in> set adj" by simp
  with assms(1) have look: "dict_index adj p = Inr a"
    by (simp add: dict_index_def)
  from Cons.prems(2) x look obtain wt rest where
    wt: "map_of w p = Some wt" and
    rest: "map_result
           (\<lambda>pillar.
              case dict_index adj pillar of
                Inl e \<Rightarrow> Inl e
              | Inr a \<Rightarrow>
                 (case dict_index w pillar of
                    Inl e \<Rightarrow> Inl e
                  | Inr wt \<Rightarrow> Inr (fmul ops a wt)))
           (map fst xs) = Inr rest" and
    terms: "terms = fmul ops a wt # rest"
    by (auto simp: dict_index_def [of w] split: sum.splits option.splits)
  from Cons.prems(1) have "set xs \<subseteq> set adj" by simp
  from Cons.IH [OF this rest] have "rest = weighted_terms ops xs w" .
  with wt x terms show ?case
    by (simp add: weighted_terms_def)
qed

lemma sample_failures:
  "check_critical_failures (sample_metrics 2) = Inr [runway_failure]"
  "check_critical_failures (sample_metrics 18) = Inr []"
  by (simp_all add: check_critical_failures_def sample_metrics_def append_if_def dict_get_def
      py_lt_def py_gt_def py_eq_num_def)

lemma sample_adjusted:
  assumes "0 \<le> s" and "s \<le> 1"
  shows "calculate_risk_adjusted_score ops s ''capital'' (sample_metrics x) = Inr s"
    and "calculate_risk_adjusted_score ops s ''advantage'' (sample_metrics x) = Inr s"
    and "calculate_risk_adjusted_score ops s ''market'' (sample_metrics x) = Inr s"
    and "calculate_risk_adjusted_score ops s ''people'' (sample_metrics x) = Inr s"
  using assms
  by (simp_all add: calculate_risk_adjusted_score_def risk_factors_def positive_factors_def
      adjust_if_def py_and_def py_gt_def py_ge_def py_lt_def py_eq_num_def dict_get_def
      sample_metrics_def)

lemma sample_stage:
  "dict_get (sample_metrics x) ''funding_stage'' (PStr ''Seed'') = PStr ''seed''"
  by (simp add: dict_get_def sample_metrics_def)

lemma sample_profile:
  "get_stage_weights (PStr ''seed'') =
     Inr [(''capital'', 0.20), (''advantage'', 0.30), (''market'', 0.25), (''people'', 0.25)]"
  "get_stage_thresholds (PStr ''seed'') =
     Inr [(''capital'', 0.35), (''advantage'', 0.45), (''market'', 0.40), (''people'', 0.50)]"
  by (simp_all add: get_stage_weights_miss get_stage_thresholds_miss stage_order_def)

lemma sample_short_runway:
  "evaluate_startup_comprehensive exact_ops sample_scores (sample_metrics 2) 0.9 =
     Inr (sample_result [runway_failure] ''FAIL'' ''CRITICAL'' ''Critical Risk'' 0.45)"
  unfolding evaluate_startup_comprehensive_def sample_failures sample_stage sample_scores_def
  by (simp add: Let_def sample_profile sample_adjusted dict_index_def sample_result_def
      runway_failure_def exact_ops_def)

lemma sample_long_runway:
  "evaluate_startup_comprehensive exact_ops sample_scores (sample_metrics 18) 0.3 =
     Inr (sample_result [] ''PASS'' ''STRONG'' ''Low Risk'' 0.55)"
  unfolding evaluate_startup_comprehensive_def sample_failures sample_stage sample_scores_def
  by (simp add: Let_def sample_profile sample_adjusted dict_index_def sample_result_def
      exact_ops_def)

text \<open>
  On the boundary sample the verdict follows the weighted score that the float
  operations give: PASS for the exact 0.6, CONDITIONAL PASS for the 0.5999999999999999
  of double arithmetic.
\<close>

lemma boundary_sample_exact:
  "evaluate_startup_comprehensive exact_ops boundary_scores (sample_metrics 18) 0.7 =
     Inr (boundary_result ''PASS'' ''STRONG'' ''Low Risk'' 0.7 0.6)"
  unfolding evaluate_startup_comprehensive_def sample_failures sample_stage boundary_scores_def
  by (simp add: Let_def sample_profile sample_adjusted dict_index_def boundary_result_def
      boundary_scores_def exact_ops_def)

lemma boundary_sample_double:
  "evaluate_startup_comprehensive sample_double_ops boundary_scores (sample_metrics 18) 0.7 =
     Inr (boundary_result ''CONDITIONAL PASS'' ''MODERATE'' ''Medium Risk'' 0.65
            0.5999999999999999)"
  unfolding evaluate_startup_comprehensive_def sample_failures sample_stage boundary_scores_def
  by (simp add: Let_def sample_profile sample_adjusted dict_index_def boundary_result_def
      boundary_scores_def sample_double_ops_def)

text \<open>
  C1. Whenever the evaluation returns for a dict of pillar scores, the critical
  failures are those that the detector reports on the payload, the adjusted score set
  is what the adjuster returns pillar by pillar, the weights and thresholds are those
  of the stage of the payload, the pillars below threshold and the weighted score are
  those of steps 1 and 2 of the specification (the weighted score being the float sum
  of the float products), and the verdict, strength and risk level are the outcome of
  the first row of the specification's decision table whose guard holds for them. So a
  non-empty list of critical failures gives FAIL, CRITICAL and Critical Risk whatever
  the weighted score is.
\<close>

theorem verdict_follows_decision_table:
  assumes "evaluate_startup_comprehensive ops ps data bp = Inr r"
    and "distinct (map fst ps)"
  shows "check_critical_failures data = Inr (critical_failures r)
       \<and> adjusted_from ops data ps (adjusted_pillar_scores r)
       \<and> get_stage_weights (dict_get data ''funding_stage'' (PStr ''Seed'')) =
           Inr (stage_weights r)
       \<and> get_stage_thresholds (dict_get data ''funding_stage'' (PStr ''Seed'')) =
           Inr (stage_thresholds r)
       \<and> below_threshold r = pillars_below (adjusted_pillar_scores r) (stage_thresholds r)
       \<and> weighted_score r =
           fsum ops (weighted_terms ops (adjusted_pillar_scores r) (stage_weights r))
       \<and> first_match
           (decision_rows (critical_failures r)
              (pillars_below (adjusted_pillar_scores r) (stage_thresholds r))
              (fsum ops (weighted_terms ops (adjusted_pillar_scores r) (stage_weights r))))
           = Some (verdict r, strength r, risk_level r)
       \<and> (critical_failures r \<noteq> [] \<longrightarrow>
            verdict r = ''FAIL'' \<and> strength r = ''CRITICAL'' \<and> risk_level r = ''Critical Risk'')"
proof -
  note v = evaluate_Inr_verdict [OF assms(1)]
  have cf: "check_critical_failures data = Inr (critical_failures r)"
    by (rule evaluate_Inr_failures [OF assms(1)])
  have adj: "adjusted_from ops data ps (adjusted_pillar_scores r)"
    by (rule adjusted_from_map_result [OF evaluate_Inr_adjusted [OF assms(1)]])
  have keys: "distinct (map fst (adjusted_pillar_scores r))"
    using adjusted_from_keys [OF adj] assms(2) by simp
  from evaluate_Inr_below [OF assms(1)] obtain below where
    "filter_result
       (\<lambda>(pillar, score).
          case dict_index (stage_thresholds r) pillar of
            Inl e \<Rightarrow> Inl e
          | Inr th \<Rightarrow> Inr (score < th))
       (adjusted_pillar_scores r) = Inr below"
    and "below_threshold r = map fst below"
    by blast
  then have below: "below_threshold r =
      pillars_below (adjusted_pillar_scores r) (stage_thresholds r)"
    using below_threshold_spec by simp
  from evaluate_Inr_terms [OF assms(1) refl refl] have
    "case map_result
       (\<lambda>pillar.
          case dict_index (adjusted_pillar_scores r) pillar of
            Inl e \<Rightarrow> Inl e
          | Inr a \<Rightarrow>
             (case dict_index (stage_weights r) pillar of
                Inl e \<Rightarrow> Inl e
              | Inr wt \<Rightarrow> Inr (fmul ops a wt)))
       (map fst (adjusted_pillar_scores r)) of
       Inl e \<Rightarrow> False
     | Inr terms \<Rightarrow> weighted_score r = fsum ops terms" .
  then obtain terms where
    terms: "map_result
       (\<lambda>pillar.
          case dict_index (adjusted_pillar_scores r) pillar of
            Inl e \<Rightarrow> Inl e
          | Inr a \<Rightarrow>
             (case dict_index (stage_weights r) pillar of
                Inl e \<Rightarrow> Inl e
              | Inr wt \<Rightarrow> Inr (fmul ops a wt)))
       (map fst (adjusted_pillar_scores r)) = Inr terms"
    and ws: "weighted_score r = fsum ops terms"
    by (auto split: sum.splits)
  have "terms = weighted_terms ops (adjusted_pillar_scores r) (stage_weights r)"
    by (rule weighted_terms_spec [OF keys subset_refl terms])
  with ws have score: "weighted_score r =
      fsum ops (weighted_terms ops (adjusted_pillar_scores r) (stage_weights r))"
    by simp
  have table: "first_match
      (decision_rows (critical_failures r) (below_threshold r) (weighted_score r))
      = Some (verdict r, strength r, risk_level r)"
  proof (cases "critical_failures r \<noteq> []")
    case True
    with v show ?thesis by (simp add: first_match_def decision_rows_def)
  next
    case False
    with v show ?thesis
      by (auto simp: first_match_def decision_rows_def split: if_splits)
  qed
  have dominance: "critical_failures r \<noteq> [] \<longrightarrow>
      verdict r = ''FAIL'' \<and> strength r = ''CRITICAL'' \<and> risk_level r = ''Critical Risk''"
    using v by (auto split: if_splits)
  from table have table': "first_match
      (decision_rows (critical_failures r)
         (pillars_below (adjusted_pillar_scores r) (stage_thresholds r))
         (fsum ops (weighted_terms ops (adjusted_pillar_scores r) (stage_weights r))))
      = Some (verdict r, strength r, risk_level r)"
    unfolding below [symmetric] score [symmetric] .
  from cf adj evaluate_Inr_profile [OF assms(1)] below score table' dominance
  show ?thesis by blast
qed

theorem verdict_follows_decision_table_witness:
  "evaluate_startup_comprehensive exact_ops sample_scores (sample_metrics 2) 0.9 =
     Inr (sample_result [runway_failure] ''FAIL'' ''CRITICAL'' ''Critical Risk'' 0.45)
   \<and> distinct (map fst sample_scores)
   \<and> check_critical_failures (sample_metrics 2) = Inr [runway_failure]
   \<and> adjusted_from exact_ops (sample_metrics 2) sample_scores sample_scores
   \<and> get_stage_weights (dict_get (sample_metrics 2) ''funding_stage'' (PStr ''Seed'')) =
       Inr [(''capital'', 0.20), (''advantage'', 0.30), (''market'', 0.25), (''people'', 0.25)]
   \<and> get_stage_thresholds (dict_get (sample_metrics 2) ''funding_stage'' (PStr ''Seed'')) =
       Inr [(''capital'', 0.35), (''advantage'', 0.45), (''market'', 0.40), (''people'', 0.50)]
   \<and> pillars_below sample_scores
       [(''capital'', 0.35), (''advantage'', 0.45), (''market'', 0.40), (''people'', 0.50)] = []
   \<and> fsum exact_ops (weighted_terms exact_ops sample_scores
       [(''capital'', 0.20), (''advantage'', 0.30), (''market'', 0.25), (''people'', 0.25)]) = 1
   \<and> first_match (decision_rows [runway_failure] [] 1) =
       Some (''FAIL'', ''CRITICAL'', ''Critical Risk'')
   \<and> verdict (sample_result [runway_failure] ''FAIL'' ''CRITICAL'' ''Critical Risk'' 0.45) = ''FAIL''"
proof -
  have d: "distinct (map fst sample_scores)"
    by (simp add: sample_scores_def)
  have r: "critical_failures (sample_result f v s rl p) = f"
    "adjusted_pillar_scores (sample_result f v s rl p) = sample_scores"
    "stage_weights (sample_result f v s rl p) =
       [(''capital'', 0.20), (''advantage'', 0.30), (''market'', 0.25), (''people'', 0.25)]"
    "stage_thresholds (sample_result f v s rl p) =
       [(''capital'', 0.35), (''advantage'', 0.45), (''market'', 0.40), (''people'', 0.50)]"
    "below_threshold (sample_result f v s rl p) = []"
    "weighted_score (sample_result f v s rl p) = 1"
    "verdict (sample_result f v s rl p) = v"
    "strength (sample_result f v s rl p) = s"
    "risk_level (sample_result f v s rl p) = rl" for f v s rl p
    by (simp_all add: sample_result_def sample_scores_def)
  from verdict_follows_decision_table [OF sample_short_runway d, unfolded r]
  have "check_critical_failures (sample_metrics 2) = Inr [runway_failure]"
    and "adjusted_from exact_ops (sample_metrics 2) sample_scores sample_scores"
    and "get_stage_weights (dict_get (sample_metrics 2) ''funding_stage'' (PStr ''Seed'')) =
       Inr [(''capital'', 0.20), (''advantage'', 0.30), (''market'', 0.25), (''people'', 0.25)]"
    and "get_stage_thresholds (dict_get (sample_metrics 2) ''funding_stage'' (PStr ''Seed'')) =
       Inr [(''capital'', 0.35), (''advantage'', 0.45), (''market'', 0.40), (''people'', 0.50)]"
    and b: "[] = pillars_below sample_scores
       [(''capital'', 0.35), (''advantage'', 0.45), (''market'', 0.40), (''people'', 0.50)]"
    and w: "1 = fsum exact_ops (weighted_terms exact_ops sample_scores
       [(''capital'', 0.20), (''advantage'', 0.30), (''market'', 0.25), (''people'', 0.25)])"
    and t: "first_match
       (decision_rows [runway_failure]
          (pillars_below sample_scores
             [(''capital'', 0.35), (''advantage'', 0.45), (''market'', 0.40), (''people'', 0.50)])
          (fsum exact_ops (weighted_terms exact_ops sample_scores
             [(''capital'', 0.20), (''advantage'', 0.30), (''market'', 0.25), (''people'', 0.25)])))
       = Some (''FAIL'', ''CRITICAL'', ''Critical Risk'')"
    by blast+
  moreover from t have "first_match (decision_rows [runway_failure] [] 1) =
       Some (''FAIL'', ''CRITICAL'', ''Critical Risk'')"
    unfolding b [symmetric] w [symmetric] .
  ultimately show ?thesis
    using sample_short_runway d b w by (simp add: r)
qed

text \<open>
  C2. For a base probability in \<open>[0,1]\<close> the adjusted probability agrees with the
  verdict, which is one of FAIL, CONDITIONAL PASS and PASS: at most 0.45 under FAIL,
  within \<open>[0.45, 0.65]\<close> under CONDITIONAL PASS, at least 0.55 under PASS, and in
  \<open>[0,1]\<close> in every case.
\<close>

theorem probability_consistent_with_verdict:
  assumes "evaluate_startup_comprehensive ops ps data bp = Inr r"
    and "0 \<le> bp" and "bp \<le> 1"
  shows "(verdict r = ''FAIL'' \<or> verdict r = ''CONDITIONAL PASS'' \<or> verdict r = ''PASS'')
       \<and> (verdict r = ''FAIL'' \<longrightarrow> adjusted_probability r \<le> 0.45)
       \<and> (verdict r = ''CONDITIONAL PASS'' \<longrightarrow>
            0.45 \<le> adjusted_probability r \<and> adjusted_probability r \<le> 0.65)
       \<and> (verdict r = ''PASS'' \<longrightarrow> 0.55 \<le> adjusted_probability r)
       \<and> 0 \<le> adjusted_probability r \<and> adjusted_probability r \<le> 1"
proof -
  note p = evaluate_Inr_probability [OF assms(1)]
  from evaluate_Inr_verdict_cases [OF assms(1)]
  consider (fail) "verdict r = ''FAIL''" | (cond) "verdict r = ''CONDITIONAL PASS''"
    | (pass) "verdict r = ''PASS''"
    by blast
  then show ?thesis
  proof cases
    case fail
    with p assms(2,3) show ?thesis by (auto simp: min_def)
  next
    case cond
    with p assms(2,3) show ?thesis by (auto simp: min_def max_def)
  next
    case pass
    with p assms(2,3) show ?thesis by (auto simp: max_def)
  qed
qed

theorem probability_consistent_with_verdict_witness:
  "evaluate_startup_comprehensive exact_ops sample_scores (sample_metrics 18) 0.3 =
     Inr (sample_result [] ''PASS'' ''STRONG'' ''Low Risk'' 0.55)
   \<and> (0::real) \<le> 0.3 \<and> (0.3::real) \<le> 1
   \<and> verdict (sample_result [] ''PASS'' ''STRONG'' ''Low Risk'' 0.55) = ''PASS''
   \<and> 0.55 \<le> adjusted_probability (sample_result [] ''PASS'' ''STRONG'' ''Low Risk'' 0.55)
   \<and> adjusted_probability (sample_result [] ''PASS'' ''STRONG'' ''Low Risk'' 0.55) \<le> 1"
  using probability_consistent_with_verdict [OF sample_long_runway] sample_long_runway
  by (simp add: sample_result_def)

section \<open>Properties of the probability blender\<close>



section \<open>Properties of the insight synthesizer\<close>

lemma metrics_index_Inr: "metrics_index d k = Inr v \<Longrightarrow> d k = Some v"
  by (simp add: metrics_index_def split: option.splits)

lemma py_lt_Inr: "py_lt v c = Inr b \<Longrightarrow> \<exists>x. num_of v = Some x \<and> b = (x < c)"
  by (simp add: py_lt_def split: option.splits)

lemma py_gt_Inr: "py_gt v c = Inr b \<Longrightarrow> \<exists>x. num_of v = Some x \<and> b = (c < x)"
  by (simp add: py_gt_def split: option.splits)

lemma append_if_elif_Inr:
  assumes "append_if_elif c1 m1 c2 m2 insights = Inr out"
  obtains b1 where "c1 = Inr b1" and "b1" and "out = insights @ [m1]"
  | b2 where "c1 = Inr False" and "c2 = Inr b2" and "out = insights @ (if b2 then [m2] else [])"
proof (cases c1)
  case (Inl e)
  with assms show ?thesis by (simp add: append_if_elif_def)
next
  case (Inr b1)
  show ?thesis
  proof (cases b1)
    case True
    with Inr assms that(1) show ?thesis by (simp add: append_if_elif_def)
  next
    case False
    with Inr assms have "append_if c2 m2 insights = Inr out"
      by (simp add: append_if_elif_def)
    then obtain b2 where "c2 = Inr b2" and "out = insights @ (if b2 then [m2] else [])"
      by (rule append_if_lastE)
    with Inr False that(2) show ?thesis by simp
  qed
qed

lemma pillar_messages_not_warnings:
  "capital_strong_insight \<notin> set critical_warning_messages"
  "capital_weak_insight \<notin> set critical_warning_messages"
  "advantage_strong_insight \<notin> set critical_warning_messages"
  "advantage_weak_insight \<notin> set critical_warning_messages"
  "market_strong_insight \<notin> set critical_warning_messages"
  "market_weak_insight \<notin> set critical_warning_messages"
  "people_strong_insight \<notin> set critical_warning_messages"
  "people_weak_insight \<notin> set critical_warning_messages"
  by (simp_all add: critical_warning_messages_def runway_critical_insight_def
      runway_warning_insight_def burn_insight_def capital_strong_insight_def
      capital_weak_insight_def advantage_strong_insight_def advantage_weak_insight_def
      market_strong_insight_def market_weak_insight_def people_strong_insight_def
      people_weak_insight_def)

lemma formatted_messages_not_warnings:
  "hypergrowth_insight v \<notin> set critical_warning_messages"
  "strong_growth_insight v \<notin> set critical_warning_messages"
  "ndr_insight v \<notin> set critical_warning_messages"
  "retention_insight v \<notin> set critical_warning_messages"
  "concentration_insight v \<notin> set critical_warning_messages"
  "churn_insight v \<notin> set critical_warning_messages"
  by (simp_all add: critical_warning_messages_def runway_critical_insight_def
      runway_warning_insight_def burn_insight_def hypergrowth_insight_def
      strong_growth_insight_def ndr_insight_def retention_insight_def
      concentration_insight_def churn_insight_def)

lemma critical_warnings_Inr:
  assumes "critical_warnings data insights = Inr out"
  shows "\<exists>r b. metric_num data ''runway_months'' = Some r
             \<and> metric_num data ''burn_multiple'' = Some b
             \<and> out = insights
                 @ (if r < 6 then [runway_critical_insight]
                    else if r < 12 then [runway_warning_insight] else [])
                 @ (if 5 < b then [burn_insight] else [])"
proof -
  from assms obtain rv i1 bv where
    rv: "metrics_index data ''runway_months'' = Inr rv" and
    i1: "append_if_elif (py_lt rv 6) runway_critical_insight
           (py_lt rv 12) runway_warning_insight insights = Inr i1" and
    bv: "metrics_index data ''burn_multiple'' = Inr bv" and
    out: "append_if (py_gt bv 5) burn_insight i1 = Inr out"
    unfolding critical_warnings_def by (elim sum_bindE)
  from out obtain c where c: "py_gt bv 5 = Inr c"
    and out': "out = i1 @ (if c then [burn_insight] else [])"
    by (rule append_if_lastE)
  from py_gt_Inr [OF c] obtain b where b: "num_of bv = Some b" "c = (5 < b)"
    by blast
  have mb: "metric_num data ''burn_multiple'' = Some b"
    using metrics_index_Inr [OF bv] b by (simp add: metric_num_def)
  from i1 obtain r where r: "num_of rv = Some r"
    and i1': "i1 = insights
        @ (if r < 6 then [runway_critical_insight]
           else if r < 12 then [runway_warning_insight] else [])"
  proof (rule append_if_elif_Inr)
    fix b1 assume "py_lt rv 6 = Inr b1" "b1" "i1 = insights @ [runway_critical_insight]"
    with py_lt_Inr [of rv 6 b1] that show thesis by auto
  next
    fix b2 assume a: "py_lt rv 6 = Inr False" "py_lt rv 12 = Inr b2"
      "i1 = insights @ (if b2 then [runway_warning_insight] else [])"
    from py_lt_Inr [OF a(1)] py_lt_Inr [OF a(2)] a(3) that show thesis by auto
  qed
  have mr: "metric_num data ''runway_months'' = Some r"
    using metrics_index_Inr [OF rv] r by (simp add: metric_num_def)
  from mr mb out' i1' b(2) show ?thesis by simp
qed

lemma pillar_insight_adds:
  assumes "strong \<notin> set critical_warning_messages" and "weak \<notin> set critical_warning_messages"
  shows "\<exists>new. pillar_insight d pillar strong weak insights = insights @ new
             \<and> set new \<inter> set critical_warning_messages = {}"
  using assms by (simp add: pillar_insight_def)

lemma pillar_insights_adds:
  "\<exists>new. pillar_insights pillar_scores insights = insights @ new
        \<and> set new \<inter> set critical_warning_messages = {}"
proof (cases pillar_scores)
  case None
  then show ?thesis by (simp add: pillar_insights_def)
next
  case (Some d)
  show ?thesis
  proof (cases "d = []")
    case True
    with Some show ?thesis by (simp add: pillar_insights_def)
  next
    case False
    obtain n1 where n1: "pillar_insight d ''capital'' capital_strong_insight capital_weak_insight
        insights = insights @ n1" "set n1 \<inter> set critical_warning_messages = {}"
      using pillar_insight_adds [OF pillar_messages_not_warnings(1,2)] by blast
    obtain n2 where n2: "pillar_insight d ''advantage'' advantage_strong_insight
        advantage_weak_insight (insights @ n1) = (insights @ n1) @ n2"
        "set n2 \<inter> set critical_warning_messages = {}"
      using pillar_insight_adds [OF pillar_messages_not_warnings(3,4)] by blast
    obtain n3 where n3: "pillar_insight d ''market'' market_strong_insight
        market_weak_insight ((insights @ n1) @ n2) = ((insights @ n1) @ n2) @ n3"
        "set n3 \<inter> set critical_warning_messages = {}"
      using pillar_insight_adds [OF pillar_messages_not_warnings(5,6)] by blast
    obtain n4 where n4: "pillar_insight d ''people'' people_strong_insight
        people_weak_insight (((insights @ n1) @ n2) @ n3) = (((insights @ n1) @ n2) @ n3) @ n4"
        "set n4 \<inter> set critical_warning_messages = {}"
      using pillar_insight_adds [OF pillar_messages_not_warnings(7,8)] by blast
    have "pillar_insights pillar_scores insights = insights @ (n1 @ n2 @ n3 @ n4)"
      using Some False n1(1) n2(1) n3(1) n4(1) by (simp add: pillar_insights_def Let_def)
    moreover have "set (n1 @ n2 @ n3 @ n4) \<inter> set critical_warning_messages = {}"
      using n1(2) n2(2) n3(2) n4(2) by auto
    ultimately show ?thesis by blast
  qed
qed

lemma append_if_adds:
  assumes "append_if c m insights = Inr out" and "m \<notin> set critical_warning_messages"
  shows "\<exists>new. out = insights @ new \<and> set new \<inter> set critical_warning_messages = {}"
proof -
  from assms(1) obtain b where "out = insights @ (if b then [m] else [])"
    by (rule append_if_lastE)
  with assms(2) show ?thesis by (cases b) auto
qed

lemma append_if_elif_adds:
  assumes "append_if_elif c1 m1 c2 m2 insights = Inr out"
    and "m1 \<notin> set critical_warning_messages" and "m2 \<notin> set critical_warning_messages"
  shows "\<exists>new. out = insights @ new \<and> set new \<inter> set critical_warning_messages = {}"
  using assms(1)
proof (rule append_if_elif_Inr)
  fix b1 assume "out = insights @ [m1]"
  with assms(2) show ?thesis by simp
next
  fix b2 assume "out = insights @ (if b2 then [m2] else [])"
  with assms(3) show ?thesis by (cases b2) auto
qed

lemma positive_highlights_adds:
  assumes "positive_highlights fmt data insights = Inr out"
  shows "\<exists>new. out = insights @ new \<and> set new \<inter> set critical_warning_messages = {}"
proof -
  from assms obtain g i1 n i2 p where
    i1: "append_if_elif (py_gt g 150) (hypergrowth_insight (fmt g))
           (py_gt g 100) (strong_growth_insight (fmt g)) insights = Inr i1" and
    i2: "append_if (py_gt n 120) (ndr_insight (fmt n)) i1 = Inr i2" and
    out: "append_if (py_gt p 0.8) (retention_insight (fmt (percent_of p))) i2 = Inr out"
    unfolding positive_highlights_def by (elim sum_bindE)
  from append_if_elif_adds [OF i1 formatted_messages_not_warnings(1,2)]
  obtain n1 where n1: "i1 = insights @ n1" "set n1 \<inter> set critical_warning_messages = {}"
    by blast
  from append_if_adds [OF i2 formatted_messages_not_warnings(3)]
  obtain n2 where n2: "i2 = i1 @ n2" "set n2 \<inter> set critical_warning_messages = {}"
    by blast
  from append_if_adds [OF out formatted_messages_not_warnings(4)]
  obtain n3 where n3: "out = i2 @ n3" "set n3 \<inter> set critical_warning_messages = {}"
    by blast
  have "out = insights @ (n1 @ n2 @ n3)"
    using n1(1) n2(1) n3(1) by simp
  moreover have "set (n1 @ n2 @ n3) \<inter> set critical_warning_messages = {}"
    using n1(2) n2(2) n3(2) by auto
  ultimately show ?thesis by blast
qed

lemma red_flags_adds:
  assumes "red_flags fmt data insights = Inr out"
  shows "\<exists>new. out = insights @ new \<and> set new \<inter> set critical_warning_messages = {}"
proof -
  from assms obtain c i1 where
    i1: "append_if (py_gt c 50) (concentration_insight (fmt c)) insights = Inr i1" and
    out: "append_if (py_gt (dict_get data ''churn_rate'' (PNum 0)) 10)
            (churn_insight (fmt (dict_get data ''churn_rate'' (PNum 0)))) i1 = Inr out"
    unfolding red_flags_def Let_def by (elim sum_bindE)
  from append_if_adds [OF i1 formatted_messages_not_warnings(5)]
  obtain n1 where n1: "i1 = insights @ n1" "set n1 \<inter> set critical_warning_messages = {}"
    by blast
  from append_if_adds [OF out formatted_messages_not_warnings(6)]
  obtain n2 where n2: "out = i1 @ n2" "set n2 \<inter> set critical_warning_messages = {}"
    by blast
  have "out = insights @ (n1 @ n2)"
    using n1(1) n2(1) by simp
  moreover have "set (n1 @ n2) \<inter> set critical_warning_messages = {}"
    using n1(2) n2(2) by auto
  ultimately show ?thesis by blast
qed

text \<open>
  C10. A returned list of insights has at most 6 entries. It starts with exactly the
  critical warnings that are triggered (the runway warning for a runway below 6 months,
  or else below 12 months, then the burn warning for a burn multiple above 5), and no
  critical warning occurs after them: every pillar, growth, retention, concentration
  and churn insight comes later.
\<close>

theorem insights_capped_and_warnings_first:
  assumes "generate_insights fmt data prediction pillar_scores = Inr out"
  shows "length out \<le> 6
       \<and> (\<exists>r b rest.
             metric_num data ''runway_months'' = Some r
           \<and> metric_num data ''burn_multiple'' = Some b
           \<and> out = (if r < 6 then [runway_critical_insight]
                     else if r < 12 then [runway_warning_insight] else [])
                    @ (if 5 < b then [burn_insight] else [])
                    @ rest
           \<and> set rest \<inter> set critical_warning_messages = {})"
proof -
  from assms obtain i1 i2 i3 where
    cw: "critical_warnings data [] = Inr i1" and
    ph: "positive_highlights fmt data (pillar_insights pillar_scores i1) = Inr i2" and
    rf: "red_flags fmt data i2 = Inr i3" and
    out: "Inr (take 6 i3) = (Inr out :: py_error + string list)"
    unfolding generate_insights_def by (elim sum_bindE)
  from critical_warnings_Inr [OF cw] obtain r b where
    r: "metric_num data ''runway_months'' = Some r" and
    b: "metric_num data ''burn_multiple'' = Some b" and
    i1: "i1 = (if r < 6 then [runway_critical_insight]
               else if r < 12 then [runway_warning_insight] else [])
              @ (if 5 < b then [burn_insight] else [])"
    by auto
  define ws where "ws = i1"
  have len: "length ws \<le> 2"
    unfolding ws_def i1 by simp
  obtain n1 where n1: "pillar_insights pillar_scores i1 = i1 @ n1"
    "set n1 \<inter> set critical_warning_messages = {}"
    using pillar_insights_adds by blast
  from positive_highlights_adds [OF ph] obtain n2 where
    n2: "i2 = pillar_insights pillar_scores i1 @ n2"
    "set n2 \<inter> set critical_warning_messages = {}"
    by blast
  from red_flags_adds [OF rf] obtain n3 where
    n3: "i3 = i2 @ n3" "set n3 \<inter> set critical_warning_messages = {}"
    by blast
  define others where "others = n1 @ n2 @ n3"
  have i3: "i3 = ws @ others"
    using n1(1) n2(1) n3(1) by (simp add: ws_def others_def)
  have others: "set others \<inter> set critical_warning_messages = {}"
    using n1(2) n2(2) n3(2) by (auto simp: others_def)
  define rest where "rest = take (6 - length ws) others"
  have "out = take 6 (ws @ others)"
    using out i3 by simp
  with len have o: "out = ws @ rest"
    by (simp add: rest_def)
  have "set rest \<subseteq> set others"
    unfolding rest_def by (rule set_take_subset)
  with others have rest: "set rest \<inter> set critical_warning_messages = {}"
    by blast
  have "length out \<le> 6"
    using \<open>out = take 6 (ws @ others)\<close> by simp
  moreover have "out = (if r < 6 then [runway_critical_insight]
                     else if r < 12 then [runway_warning_insight] else [])
                    @ (if 5 < b then [burn_insight] else [])
                    @ rest"
    using o i1 by (simp add: ws_def)
  ultimately show ?thesis
    using r b rest by blast
qed

lemma sample_insights:
  "generate_insights (\<lambda>v. ''n'') sample_insight_metrics 0.5
     (Some [(''capital'', 0.9), (''advantage'', 0.9), (''market'', 0.9), (''people'', 0.9)]) =
   Inr [runway_critical_insight, burn_insight, capital_strong_insight,
        advantage_strong_insight, market_strong_insight, people_strong_insight]"
proof -
  have cw: "critical_warnings sample_insight_metrics [] =
      Inr [runway_critical_insight, burn_insight]"
    by (simp add: critical_warnings_def sample_insight_metrics_def metrics_index_def
        append_if_elif_def append_if_def py_lt_def py_gt_def)
  have pi: "pillar_insights
      (Some [(''capital'', 0.9), (''advantage'', 0.9), (''market'', 0.9), (''people'', 0.9)])
      [runway_critical_insight, burn_insight] =
      [runway_critical_insight, burn_insight, capital_strong_insight,
        advantage_strong_insight, market_strong_insight, people_strong_insight]"
    by (simp add: pillar_insights_def pillar_insight_def score_get_def Let_def)
  have ph: "positive_highlights (\<lambda>v. ''n'') sample_insight_metrics ins =
      Inr (ins @ [hypergrowth_insight ''n''])" for ins
    by (simp add: positive_highlights_def sample_insight_metrics_def metrics_index_def
        append_if_elif_def append_if_def py_gt_def)
  have rf: "red_flags (\<lambda>v. ''n'') sample_insight_metrics ins = Inr ins" for ins
    by (simp add: red_flags_def sample_insight_metrics_def metrics_index_def dict_get_def
        append_if_def py_gt_def Let_def)
  show ?thesis
    unfolding generate_insights_def cw sum.case pi ph rf by simp
qed

theorem insights_capped_and_warnings_first_witness:
  "generate_insights (\<lambda>v. ''n'') sample_insight_metrics 0.5
     (Some [(''capital'', 0.9), (''advantage'', 0.9), (''market'', 0.9), (''people'', 0.9)]) =
   Inr [runway_critical_insight, burn_insight, capital_strong_insight,
        advantage_strong_insight, market_strong_insight, people_strong_insight]
   \<and> length [runway_critical_insight, burn_insight, capital_strong_insight,
        advantage_strong_insight, market_strong_insight, people_strong_insight] \<le> 6
   \<and> (\<exists>r b rest.
         metric_num sample_insight_metrics ''runway_months'' = Some r
       \<and> metric_num sample_insight_metrics ''burn_multiple'' = Some b
       \<and> [runway_critical_insight, burn_insight, capital_strong_insight,
          advantage_strong_insight, market_strong_insight, people_strong_insight]
          = (if r < 6 then [runway_critical_insight]
             else if r < 12 then [runway_warning_insight] else [])
            @ (if 5 < b then [burn_insight] else [])
            @ rest
       \<and> set rest \<inter> set critical_warning_messages = {})"
  using insights_capped_and_warnings_first [OF sample_insights] sample_insights
  by blast

section \<open>The core returns on well-typed payloads\<close>

lemma well_typed_cmp:
  assumes "well_typed data" and "k \<in> set compared_keys"
  shows "\<exists>b. py_lt (dict_get data k (PNum d)) c = Inr b"
    and "\<exists>b. py_gt (dict_get data k (PNum d)) c = Inr b"
    and "\<exists>b. py_ge (dict_get data k (PNum d)) c = Inr b"
proof -
  from assms have "numeric_or_absent data k"
    by (simp add: well_typed_def list_all_iff)
  then obtain x where "num_of (dict_get data k (PNum d)) = Some x"
    by (auto simp: numeric_or_absent_def dict_get_def split: option.splits)
  then show "\<exists>b. py_lt (dict_get data k (PNum d)) c = Inr b"
    and "\<exists>b. py_gt (dict_get data k (PNum d)) c = Inr b"
    and "\<exists>b. py_ge (dict_get data k (PNum d)) c = Inr b"
    by (simp_all add: py_lt_def py_gt_def py_ge_def)
qed

lemma adjust_if_total: "c = Inr b \<Longrightarrow> \<exists>a. adjust_if ops c delta adjusted = Inr a"
  by (simp add: adjust_if_def)

lemma py_and_total: "\<exists>b. c = Inr b \<Longrightarrow> \<exists>b. py_and a c = Inr b"
  by (auto simp: py_and_def)

lemma check_critical_failures_total:
  assumes "well_typed data"
  shows "\<exists>fs. check_critical_failures data = Inr fs"
proof -
  obtain c1 where c1: "py_lt (dict_get data ''runway_months'' (PNum 0)) 3 = Inr c1"
    using well_typed_cmp(1) [OF assms, of "''runway_months''"] by (auto simp: compared_keys_def)
  obtain c2 where c2: "py_gt (dict_get data ''burn_multiple'' (PNum 0)) 5 = Inr c2"
    using well_typed_cmp(2) [OF assms, of "''burn_multiple''"] by (auto simp: compared_keys_def)
  obtain c3 where c3: "py_gt (dict_get data ''customer_concentration_percent'' (PNum 0)) 80 = Inr c3"
    using well_typed_cmp(2) [OF assms, of "''customer_concentration_percent''"]
    by (auto simp: compared_keys_def)
  obtain c4 where c4: "py_gt (dict_get data ''churn_rate'' (PNum 0)) 20 = Inr c4"
    using well_typed_cmp(2) [OF assms, of "''churn_rate''"] by (auto simp: compared_keys_def)
  show ?thesis
    unfolding check_critical_failures_def c1 c2 c3 c4 by (simp add: append_if_def)
qed

lemma risk_factors_total:
  assumes "well_typed data"
  shows "\<exists>a. risk_factors ops adjusted pillar_name data = Inr a"
proof -
  obtain m1 where m1: "py_gt (dict_get data ''customer_concentration_percent'' (PNum 0)) 50 = Inr m1"
    using well_typed_cmp(2) [OF assms, of "''customer_concentration_percent''"]
    by (auto simp: compared_keys_def)
  obtain m2 where m2: "py_gt (dict_get data ''regulatory_risk_score'' (PNum 0)) 4 = Inr m2"
    using well_typed_cmp(2) [OF assms, of "''regulatory_risk_score''"]
    by (auto simp: compared_keys_def)
  obtain m3 where m3: "py_ge (dict_get data ''competition_intensity'' (PNum 0)) 4 = Inr m3"
    using well_typed_cmp(3) [OF assms, of "''competition_intensity''"]
    by (auto simp: compared_keys_def)
  obtain k1 where k1: "py_gt (dict_get data ''debt_to_equity_ratio'' (PNum 0)) 2 = Inr k1"
    using well_typed_cmp(2) [OF assms, of "''debt_to_equity_ratio''"]
    by (auto simp: compared_keys_def)
  obtain a1 where a1: "py_lt (dict_get data ''switching_cost_score'' (PNum 0)) 3 = Inr a1"
    using well_typed_cmp(1) [OF assms, of "''switching_cost_score''"]
    by (auto simp: compared_keys_def)
  obtain p1 where p1: "py_lt (dict_get data ''team_diversity_percent'' (PNum 0)) 20 = Inr p1"
    using well_typed_cmp(1) [OF assms, of "''team_diversity_percent''"]
    by (auto simp: compared_keys_def)
  show ?thesis
    unfolding risk_factors_def m1 m2 m3 k1 a1 p1
    by (simp add: adjust_if_def py_and_def)
qed

lemma positive_factors_total:
  assumes "well_typed data"
  shows "\<exists>a. positive_factors ops adjusted pillar_name data = Inr a"
proof -
  obtain c1 where c1: "py_gt (dict_get data ''patent_count'' (PNum 0)) 5 = Inr c1"
    using well_typed_cmp(2) [OF assms, of "''patent_count''"] by (auto simp: compared_keys_def)
  obtain c2 where c2: "py_gt (dict_get data ''net_dollar_retention_percent'' (PNum 0)) 130 = Inr c2"
    using well_typed_cmp(2) [OF assms, of "''net_dollar_retention_percent''"]
    by (auto simp: compared_keys_def)
  obtain c3 where c3: "py_gt (dict_get data ''prior_successful_exits_count'' (PNum 0)) 1 = Inr c3"
    using well_typed_cmp(2) [OF assms, of "''prior_successful_exits_count''"]
    by (auto simp: compared_keys_def)
  show ?thesis
    unfolding positive_factors_def c1 c2 c3
    by (simp add: adjust_if_def py_and_def)
qed

lemma calculate_risk_adjusted_score_total:
  assumes "well_typed data"
  shows "\<exists>r. calculate_risk_adjusted_score ops base_score pillar_name data = Inr r"
proof -
  obtain a where a: "risk_factors ops base_score pillar_name data = Inr a"
    using risk_factors_total [OF assms] by blast
  obtain a' where a': "positive_factors ops a pillar_name data = Inr a'"
    using positive_factors_total [OF assms] by blast
  show ?thesis
    by (simp add: calculate_risk_adjusted_score_def a a')
qed

lemma map_result_total:
  assumes "\<And>x. x \<in> set xs \<Longrightarrow> \<exists>y. f x = Inr y"
  shows "\<exists>ys. map_result f xs = Inr ys \<and> length ys = length xs"
  using assms
proof (induction xs)
  case Nil
  then show ?case by simp
next
  case (Cons x xs)
  then obtain y where y: "f x = Inr y" by auto
  from Cons obtain ys where "map_result f xs = Inr ys" "length ys = length xs" by auto
  with y show ?case by simp
qed

lemma filter_result_total:
  assumes "\<And>x. x \<in> set xs \<Longrightarrow> \<exists>b. c x = Inr b"
  shows "\<exists>ys. filter_result c xs = Inr ys"
  using assms
proof (induction xs)
  case Nil
  then show ?case by simp
next
  case (Cons x xs)
  then obtain b where b: "c x = Inr b" by auto
  from Cons obtain ys where "filter_result c xs = Inr ys" by auto
  with b show ?case by simp
qed

lemma adjusted_scores_keys:
  assumes "map_result
            (\<lambda>(pillar, score).
               case calculate_risk_adjusted_score ops score pillar data of
                 Inl e \<Rightarrow> Inl e
               | Inr a \<Rightarrow> Inr (pillar, a)) ps = Inr adj"
  shows "map fst adj = map fst ps"
  using assms
proof (induction ps arbitrary: adj)
  case Nil
  then show ?case by simp
next
  case (Cons p ps)
  then show ?case
    by (cases p) (auto split: sum.splits)
qed

lemma profile_keys:
  assumes "get_stage_weights v = Inr w" and "get_stage_thresholds v = Inr t"
  shows "map fst w = pillar_names" and "map fst t = pillar_names"
proof -
  have w: "w = table_get weights_table v
      [(''capital'', 0.20), (''advantage'', 0.30), (''market'', 0.25), (''people'', 0.25)]"
    using assms(1) unfolding get_stage_weights_def seed_weights by simp
  have t: "t = table_get thresholds_table v
      [(''capital'', 0.35), (''advantage'', 0.45), (''market'', 0.40), (''people'', 0.50)]"
    using assms(2) unfolding get_stage_thresholds_def seed_thresholds by simp
  show "map fst w = pillar_names"
    unfolding w
    by (cases v) (simp_all add: table_get_def weights_table_def pillar_names_def)
  show "map fst t = pillar_names"
    unfolding t
    by (cases v) (simp_all add: table_get_def thresholds_table_def pillar_names_def)
qed

lemma profile_total:
  "\<exists>w. get_stage_weights v = Inr w" "\<exists>t. get_stage_thresholds v = Inr t"
  unfolding get_stage_weights_def get_stage_thresholds_def seed_weights seed_thresholds
  by simp_all

lemma dict_index_total:
  assumes "k \<in> set (map fst d)"
  shows "\<exists>v. dict_index d k = Inr v"
proof -
  from assms have "map_of d k \<noteq> None"
    by (simp add: map_of_eq_None_iff)
  then show ?thesis
    by (auto simp: dict_index_def)
qed

lemma sum_bind_total:
  assumes "m = Inr x" and "\<exists>r. k x = Inr r"
  shows "\<exists>r. (case m of Inl e \<Rightarrow> Inl e | Inr x \<Rightarrow> k x) = Inr r"
  using assms by simp

lemma evaluate_startup_comprehensive_total:
  assumes "well_typed data" and "set (map fst pillar_scores) \<subseteq> set pillar_names"
  shows "\<exists>r. evaluate_startup_comprehensive ops pillar_scores data base_probability = Inr r"
proof -
  let ?adjust = "\<lambda>(pillar, score).
      case calculate_risk_adjusted_score ops score pillar data of
        Inl e \<Rightarrow> Inl e
      | Inr a \<Rightarrow> Inr (pillar, a)"
  obtain cf where cf: "check_critical_failures data = Inr cf"
    using check_critical_failures_total [OF assms(1)] by blast
  have "\<exists>y. ?adjust x = Inr y" for x
  proof (cases x)
    case (Pair pillar score)
    obtain a where "calculate_risk_adjusted_score ops score pillar data = Inr a"
      using calculate_risk_adjusted_score_total [OF assms(1)] by blast
    with Pair show ?thesis by simp
  qed
  then have "\<exists>ys. map_result ?adjust pillar_scores = Inr ys \<and> length ys = length pillar_scores"
    by (rule map_result_total)
  then obtain adj where adj: "map_result ?adjust pillar_scores = Inr adj"
    by (elim exE conjE)
  have keys: "set (map fst adj) \<subseteq> set pillar_names"
    using adjusted_scores_keys [OF adj] assms(2) by simp
  obtain w where w: "get_stage_weights (dict_get data ''funding_stage'' (PStr ''Seed'')) = Inr w"
    using profile_total(1) by blast
  obtain t where t: "get_stage_thresholds (dict_get data ''funding_stage'' (PStr ''Seed'')) = Inr t"
    using profile_total(2) by blast
  note pk = profile_keys [OF w t]
  let ?below = "\<lambda>(pillar, score).
      case dict_index t pillar of
        Inl e \<Rightarrow> Inl e
      | Inr th \<Rightarrow> Inr (score < th)"
  have "\<exists>b. ?below x = Inr b" if "x \<in> set adj" for x
  proof (cases x)
    case (Pair pillar score)
    with that keys have "pillar \<in> set (map fst t)"
      unfolding pk by force
    from dict_index_total [OF this] obtain th where "dict_index t pillar = Inr th"
      by (elim exE)
    with Pair show ?thesis by simp
  qed
  then have "\<exists>ys. filter_result ?below adj = Inr ys"
    by (rule filter_result_total)
  then obtain below where below: "filter_result ?below adj = Inr below"
    by (elim exE)
  let ?weighted = "\<lambda>pillar.
      case dict_index adj pillar of
        Inl e \<Rightarrow> Inl e
      | Inr a \<Rightarrow>
         (case dict_index w pillar of
            Inl e \<Rightarrow> Inl e
          | Inr wt \<Rightarrow> Inr (fmul ops a wt))"
  have "\<exists>y. ?weighted x = Inr y" if "x \<in> set (map fst adj)" for x
  proof -
    from that keys have "x \<in> set (map fst w)"
      unfolding pk by blast
    from dict_index_total [OF this] obtain wt where wt: "dict_index w x = Inr wt"
      by (elim exE)
    from dict_index_total [OF that] obtain a where a: "dict_index adj x = Inr a"
      by (elim exE)
    show ?thesis by (simp add: a wt)
  qed
  then have "\<exists>ys. map_result ?weighted (map fst adj) = Inr ys \<and> length ys = length (map fst adj)"
    by (rule map_result_total)
  then obtain terms where terms: "map_result ?weighted (map fst adj) = Inr terms"
    by (elim exE conjE)
  show ?thesis
    unfolding evaluate_startup_comprehensive_def Let_def
    apply (rule sum_bind_total [OF cf])
    apply (rule sum_bind_total [OF adj])
    apply (rule sum_bind_total [OF w])
    apply (rule sum_bind_total [OF t])
    apply (rule sum_bind_total [OF below])
    apply (rule sum_bind_total [OF terms])
    apply (simp only: split_def)
    apply blast
    done
qed

text \<open>
  Every tier that the request schema accepts is outside the exemption list of the
  adjuster, so on validated requests without debt the capital score always loses 0.05.
\<close>

lemma schema_tier_always_penalised:
  assumes "tier \<in> set investor_tier_pattern"
    and "data ''investor_tier_primary'' = Some (PStr tier)"
    and "data ''has_debt'' = Some (PBool False)"
  shows "calculate_risk_adjusted_score ops base_score ''capital'' data =
           Inr (max 0 (min 1 (fadd ops base_score (- 0.05))))"
proof -
  from assms(1) have "PStr tier \<notin> set [PStr ''Tier 1'', PStr ''Tier 2'']"
    by (auto simp: investor_tier_pattern_def)
  with assms(2,3) show ?thesis
    by (simp add: calculate_risk_adjusted_score_def risk_factors_def positive_factors_def
        adjust_if_def py_and_def dict_get_def)
qed

end
